theory Spec2Isabelle
  imports Main "HOL-Library.Word" "HOL-Library.Signed_Division"
begin

text \<open>
  A line-numbered BASIC: the tokenizer, the recursive-descent parser and the tree-walking
  interpreter of go-ubasic, each function of the sources as a function here, followed by
  the properties of the program that its specification states. Names are those of the
  sources, methods prefixed with their receiver (\<open>Interpreter_Step\<close> is
  \<open>Interpreter.Step\<close>).
\<close>

section \<open>Tokens and syntax trees (packages lex and ast)\<close>

text \<open>
  The constants of \<open>lex.Token\<close> are declared in a file that is not among the sources.
  The datatype lists every constant the sources name; \<open>OTHER\<close> stands for any constant
  they do not name (all of the sources' switches treat such a value alike, through their
  default branches).
\<close>

datatype TokenType =
    EOF | ERROR | CR | REM | NUMBER | STRING | VARIABLE
  | LET | PRINT | IF | THEN | ELSE | FOR | TO | NEXT | GOTO | GOSUB | RETURN
  | CALL | PEEK | POKE | END
  | COMMA | SEMICOLON | LT | GT | LEQ | GEQ | NEQ | EQ | LPAREN | RPAREN
  | XOR | AND | OR | PLUS | MINUS | ASTR | SLASH | MOD | HASH
  | OTHER

type_synonym int64 = "64 word"

text \<open>\<open>scanner.Position\<close>, \<open>ast.Token\<close>, \<open>ast.Number\<close> (and \<open>ast.Label\<close>, which is the
  same struct), \<open>ast.Variable\<close>.\<close>

record Position =
  Filename :: string
  Offset :: nat
  Line :: nat
  Column :: nat

record Token =
  Pos :: Position
  Type :: TokenType
  Text :: string

record Number =
  Pos :: Position
  Value :: int64

type_synonym Label = Number

record Variable =
  Pos :: Position
  Name :: string

text \<open>\<open>ast.Expr\<close> is the empty interface; its dynamic types are the structs below.\<close>

datatype Expr =
    Number Number
  | Variable Variable
  | String Position string
  | Punct Position TokenType
  | BinaryExpr Token Expr Expr
  | ParenExpr Token Expr Token

text \<open>The statement structs, each with its \<open>BaseStmt.Label\<close> first, then its fields in
  the order of their declaration.\<close>

datatype Stmt =
    EndStmt Label Token
  | ForStmt Label Token Variable Expr Token Expr
  | GotoStmt Label Token Number
  | GosubStmt Label Token Number
  | IfStmt Label Token Expr Token Stmt "ElseStmt option"
  | LetStmt Label Token Variable Expr
  | NextStmt Label Token Variable
  | PeekStmt Label Token Expr Variable
  | PokeStmt Label Token Expr Expr
  | PrintStmt Label Token "Expr list"
  | ReturnStmt Label Token
and ElseStmt =
    ElseStmt Label Token Stmt

fun Stmt_Label :: "Stmt \<Rightarrow> Label" where
  "Stmt_Label (EndStmt l _) = l"
| "Stmt_Label (ForStmt l _ _ _ _ _) = l"
| "Stmt_Label (GotoStmt l _ _) = l"
| "Stmt_Label (GosubStmt l _ _) = l"
| "Stmt_Label (IfStmt l _ _ _ _ _) = l"
| "Stmt_Label (LetStmt l _ _ _) = l"
| "Stmt_Label (NextStmt l _ _) = l"
| "Stmt_Label (PeekStmt l _ _ _) = l"
| "Stmt_Label (PokeStmt l _ _ _) = l"
| "Stmt_Label (PrintStmt l _ _) = l"
| "Stmt_Label (ReturnStmt l _) = l"

text \<open>\<open>func (s *BaseStmt) Line() int64\<close>\<close>

definition Stmt_Line :: "Stmt \<Rightarrow> int64" where
  "Stmt_Line s = Value (Stmt_Label s)"

section \<open>Errors\<close>

text \<open>
  Every error of the program is built by \<open>fmt.Errorf\<close> from a format and its arguments;
  the model keeps the format (as a constructor) and the arguments. The parser wraps its
  message in \<open>ast.Error\<close> with the position of the current token. \<open>DivideByZero\<close> is the
  run-time panic of Go's integer division, which is an \<open>error\<close> value too and is
  recovered by \<open>Eval\<close> like the others. \<open>io_EOF\<close> is \<open>io.EOF\<close>.
\<close>

datatype message =
    ExpectedButGot TokenType TokenType
  | InvalidNumber string
  | ExpectedNewline TokenType
  | LexError string
  | UnsupportedStatement string
  | InvalidString string
  | UnknownPrintType string
  | NonMatchingNext Label
  | GotoMissing Label int64
  | GosubMissing Label int64
  | NonMatchingReturn Label
  | UnknownPrintArgument Label Expr
  | UnknownBinaryOperator Position TokenType
  | UnknownVariableName Position string

datatype error =
    Errorf message
  | AstError Position message
  | DivideByZero
  | io_EOF

section \<open>The host's library\<close>

text \<open>
  The sources call Go's standard library and use the zero value of \<open>lex.Token\<close>. The model
  computes the library's functions on ASCII input, where they are short to describe; their
  values elsewhere, and the zero value (declared in the missing file), are parameters.
\<close>

record host =
  ZeroToken :: TokenType \<comment> \<open>the zero value of \<open>lex.Token\<close>\<close>
  DecodeRune :: "string \<Rightarrow> int \<times> nat" \<comment> \<open>\<open>utf8.DecodeRune\<close> at a byte from 0x80 on\<close>
  IsLetter :: "int \<Rightarrow> bool" \<comment> \<open>\<open>unicode.IsLetter\<close> from U+0080 on\<close>
  IsDigit :: "int \<Rightarrow> bool" \<comment> \<open>\<open>unicode.IsDigit\<close> from U+0080 on\<close>
  ToLower :: "string \<Rightarrow> string" \<comment> \<open>\<open>strings.ToLower\<close> of a string with a byte from 0x80 on\<close>
  RuneString :: "int \<Rightarrow> string" \<comment> \<open>\<open>string(ch)\<close> from U+0080 on\<close>
  QuoteRune :: "int \<Rightarrow> string" \<comment> \<open>\<open>fmt.Sprintf("%q", ch)\<close>\<close>
  ParseInt :: "string \<Rightarrow> int64 option" \<comment> \<open>\<open>strconv.ParseInt(s, 0, 64)\<close>, \<open>s\<close> not all digits\<close>
  Unquote :: "string \<Rightarrow> string option" \<comment> \<open>\<open>strconv.Unquote\<close>, \<open>s\<close> not a plain ASCII literal\<close>

definition ascii :: "char \<Rightarrow> bool" where
  "ascii c = ((of_char c :: int) < 128)"

definition utf8_DecodeRune :: "host \<Rightarrow> string \<Rightarrow> int \<times> nat" where
  "utf8_DecodeRune H b =
     (case b of
        [] \<Rightarrow> (65533, 0)
      | c # _ \<Rightarrow>
          if ascii c then (of_char c, 1)
          else (let (r, w) = DecodeRune H b in (r, max 1 w)))"

definition unicode_IsLetter :: "host \<Rightarrow> int \<Rightarrow> bool" where
  "unicode_IsLetter H r =
     (if r < 0 then False
      else if r < 128 then (65 \<le> r \<and> r \<le> 90) \<or> (97 \<le> r \<and> r \<le> 122)
      else IsLetter H r)"

definition unicode_IsDigit :: "host \<Rightarrow> int \<Rightarrow> bool" where
  "unicode_IsDigit H r =
     (if r < 0 then False
      else if r < 128 then 48 \<le> r \<and> r \<le> 57
      else IsDigit H r)"

definition lower :: "char \<Rightarrow> char" where
  "lower c = (if 65 \<le> (of_char c :: int) \<and> (of_char c :: int) \<le> 90
              then char_of (of_char c + 32 :: int) else c)"

definition strings_ToLower :: "host \<Rightarrow> string \<Rightarrow> string" where
  "strings_ToLower H s = (if list_all ascii s then map lower s else ToLower H s)"

definition string_of_rune :: "host \<Rightarrow> int \<Rightarrow> string" where
  "string_of_rune H r = (if 0 \<le> r \<and> r < 128 then [char_of r] else RuneString H r)"

text \<open>\<open>strconv.ParseInt(s, 0, 64)\<close> on a string of digits: octal after a leading zero,
  decimal otherwise; an error on the empty string, on a digit that the base does not have,
  and on a value beyond \<open>int64\<close>.\<close>

definition digit_value :: "char \<Rightarrow> int" where
  "digit_value c = of_char c - 48"

definition is_digit_char :: "char \<Rightarrow> bool" where
  "is_digit_char c = (48 \<le> (of_char c :: int) \<and> (of_char c :: int) \<le> 57)"

definition digits_value :: "int \<Rightarrow> string \<Rightarrow> int option" where
  "digits_value base s =
     (if list_all (\<lambda>c. digit_value c < base) s
      then Some (foldl (\<lambda>a c. a * base + digit_value c) 0 s) else None)"

definition strconv_ParseInt :: "host \<Rightarrow> string \<Rightarrow> int64 option" where
  "strconv_ParseInt H s =
     (if s = [] then None
      else if list_all is_digit_char s then
        (case (if hd s = CHR ''0'' \<and> length s > 1 then digits_value 8 (tl s) else digits_value 10 s) of
           None \<Rightarrow> None
         | Some v \<Rightarrow> if v < 2 ^ 63 then Some (word_of_int v) else None)
      else ParseInt H s)"

text \<open>\<open>strconv.Unquote\<close> on a double-quoted literal of ASCII bytes with no quote,
  backslash or newline inside: the bytes between the quotes.\<close>

definition strconv_Unquote :: "host \<Rightarrow> string \<Rightarrow> string option" where
  "strconv_Unquote H s =
     (if length s \<ge> 2 \<and> hd s = CHR ''\"'' \<and> last s = CHR ''\"'' \<and>
         list_all (\<lambda>c. ascii c \<and> c \<noteq> CHR ''\"'' \<and> c \<noteq> CHR 0x5C \<and> c \<noteq> CHR 0x0A) (butlast (tl s))
      then Some (butlast (tl s)) else Unquote H s)"

section \<open>The tokenizer (package lex)\<close>

text \<open>The fields of \<open>Tokenizer\<close>, prefixed with \<open>t_\<close>; \<open>t_conf\<close> is \<open>conf.ScanComments\<close>.\<close>

record Tokenizer =
  t_conf :: bool
  t_name :: string
  t_src :: string
  t_ch :: int
  t_offset :: nat
  t_rdOffset :: nat
  t_line :: nat
  t_lastLine :: nat
  t_column :: nat
  t_lastColumn :: nat

definition eof :: int where
  "eof = - 1"

definition Tokenizer_next :: "host \<Rightarrow> Tokenizer \<Rightarrow> Tokenizer" where
  "Tokenizer_next H t =
     (let t1 = t\<lparr>t_lastLine := t_line t, t_lastColumn := t_column t\<rparr> in
      if t_rdOffset t1 < length (t_src t1) then
        (let t2 = t1\<lparr>t_offset := t_rdOffset t1\<rparr>;
             t3 = (if t_ch t2 = 10 then t2\<lparr>t_line := t_line t2 + 1, t_column := 1\<rparr> else t2);
             (r, w) = utf8_DecodeRune H (drop (t_rdOffset t3) (t_src t3))
         in t3\<lparr>t_rdOffset := t_rdOffset t3 + w, t_ch := r\<rparr>)
      else
        (let t2 = t1\<lparr>t_offset := length (t_src t1)\<rparr>;
             t3 = (if t_ch t2 = 10 then t2\<lparr>t_line := t_line t2 + 1, t_column := 1\<rparr> else t2)
         in t3\<lparr>t_ch := eof\<rparr>))"

definition Tokenizer_Init :: "host \<Rightarrow> bool \<Rightarrow> string \<Rightarrow> string \<Rightarrow> Tokenizer" where
  "Tokenizer_Init H conf name src =
     Tokenizer_next H
       \<lparr>t_conf = conf, t_name = name, t_src = src, t_ch = 0, t_offset = 0, t_rdOffset = 0,
        t_line = 1, t_lastLine = 0, t_column = 1, t_lastColumn = 0\<rparr>"

text \<open>What is left to read: it decreases with every \<open>next\<close> before the end of the input.\<close>

definition unread :: "Tokenizer \<Rightarrow> nat" where
  "unread t = 2 * (length (t_src t) - t_rdOffset t) + (if t_ch t = eof then 0 else 1)"

lemma utf8_DecodeRune_width: "b \<noteq> [] \<Longrightarrow> 1 \<le> snd (utf8_DecodeRune H b)"
  by (cases b) (auto simp: utf8_DecodeRune_def split: prod.splits)

lemma unread_next:
  assumes "t_rdOffset t < length (t_src t) \<or> t_ch t \<noteq> eof"
  shows "unread (Tokenizer_next H t) < unread t"
proof (cases "t_rdOffset t < length (t_src t)")
  case True
  then have "drop (t_rdOffset t) (t_src t) \<noteq> []" by simp
  from utf8_DecodeRune_width[OF this, of H] True show ?thesis
    by (auto simp: unread_def Tokenizer_next_def Let_def split: prod.splits)
next
  case False
  with assms show ?thesis
    by (auto simp: unread_def Tokenizer_next_def Let_def)
qed

lemma next_eof: "\<not> t_rdOffset t < length (t_src t) \<Longrightarrow> t_ch (Tokenizer_next H t) = eof"
  by (simp add: Tokenizer_next_def Let_def)

function Tokenizer_skipws :: "host \<Rightarrow> Tokenizer \<Rightarrow> Tokenizer" where
  "Tokenizer_skipws H t =
     (if t_ch t = 9 \<or> t_ch t = 32 then Tokenizer_skipws H (Tokenizer_next H t) else t)"
  by pat_completeness auto
termination
  by (relation "measure (\<lambda>(H, t). unread t)") (auto intro!: unread_next simp: eof_def)

definition isLetter :: "host \<Rightarrow> int \<Rightarrow> bool" where
  "isLetter H ch = (ch = 95 \<or> unicode_IsLetter H ch)"

definition isDigit :: "int \<Rightarrow> bool" where
  "isDigit ch = (48 \<le> ch \<and> ch \<le> 57)"

text \<open>\<open>string(t.src[offs:t.offset])\<close>\<close>

definition slice :: "Tokenizer \<Rightarrow> nat \<Rightarrow> string" where
  "slice t offs = take (t_offset t - offs) (drop offs (t_src t))"

text \<open>The loop of \<open>comment\<close> reads on until a newline, also at the end of the input, where
  \<open>next\<close> leaves \<open>ch\<close> at \<open>eof\<close>: without a newline it does not end.\<close>

partial_function (option) comment_loop :: "host \<Rightarrow> Tokenizer \<Rightarrow> Tokenizer option" where
  "comment_loop H t = (if t_ch t \<noteq> 10 then comment_loop H (Tokenizer_next H t) else Some t)"

declare comment_loop.simps [code]

definition Tokenizer_comment :: "host \<Rightarrow> Tokenizer \<Rightarrow> (string \<times> Tokenizer) option" where
  "Tokenizer_comment H t =
     (let offs = t_offset t in
      case comment_loop H t of
        None \<Rightarrow> None
      | Some t1 \<Rightarrow> (let t2 = Tokenizer_next H t1 in Some (slice t2 offs, t2)))"

function ident_loop :: "host \<Rightarrow> Tokenizer \<Rightarrow> Tokenizer" where
  "ident_loop H t =
     (if isLetter H (t_ch t) \<or> isDigit (t_ch t) then ident_loop H (Tokenizer_next H t) else t)"
  by pat_completeness auto
termination
  by (relation "measure (\<lambda>(H, t). unread t)")
    (auto intro!: unread_next simp: eof_def isLetter_def isDigit_def unicode_IsLetter_def)

definition Tokenizer_ident :: "host \<Rightarrow> Tokenizer \<Rightarrow> string \<times> Tokenizer" where
  "Tokenizer_ident H t = (let offs = t_offset t; t1 = ident_loop H t in (slice t1 offs, t1))"

definition lookupIdent :: "host \<Rightarrow> string \<Rightarrow> TokenType" where
  "lookupIdent H ident =
     (let s = strings_ToLower H ident in
      if s = ''let'' then LET
      else if s = ''print'' then PRINT
      else if s = ''if'' then IF
      else if s = ''then'' then THEN
      else if s = ''else'' then ELSE
      else if s = ''for'' then FOR
      else if s = ''to'' then TO
      else if s = ''next'' then NEXT
      else if s = ''goto'' then GOTO
      else if s = ''gosub'' then GOSUB
      else if s = ''return'' then RETURN
      else if s = ''call'' then CALL
      else if s = ''rem'' then REM
      else if s = ''peek'' then PEEK
      else if s = ''poke'' then POKE
      else if s = ''end'' then END
      else VARIABLE)"

function number_loop :: "host \<Rightarrow> Tokenizer \<Rightarrow> Tokenizer" where
  "number_loop H t = (if isDigit (t_ch t) then number_loop H (Tokenizer_next H t) else t)"
  by pat_completeness auto
termination
  by (relation "measure (\<lambda>(H, t). unread t)") (auto intro!: unread_next simp: eof_def isDigit_def)

definition Tokenizer_number :: "host \<Rightarrow> Tokenizer \<Rightarrow> TokenType \<times> string \<times> Tokenizer" where
  "Tokenizer_number H t = (let offs = t_offset t; t1 = number_loop H t in (NUMBER, slice t1 offs, t1))"

text \<open>The loop of \<open>string\<close>: \<open>Inl\<close> is its return inside the loop, \<open>Inr\<close> its \<open>break\<close>.\<close>

function string_loop :: "host \<Rightarrow> Tokenizer \<Rightarrow> Tokenizer + Tokenizer" where
  "string_loop H t =
     (let t1 = Tokenizer_next H t in
      if t_ch t1 = eof \<or> t_ch t1 = 13 \<or> t_ch t1 = 10 then Inl t1
      else if t_ch t1 = 34 then Inr t1
      else string_loop H t1)"
  by pat_completeness auto
termination
proof (relation "measure (\<lambda>(H, t). unread t)")
  show "wf (measure (\<lambda>(H, t). unread t))" by simp
next
  fix H t x
  assume "x = Tokenizer_next H t" and "\<not> (t_ch x = eof \<or> t_ch x = 13 \<or> t_ch x = 10)"
  then have "t_rdOffset t < length (t_src t)"
    using next_eof[of t H] by auto
  then show "((H, x), (H, t)) \<in> measure (\<lambda>(H, t). unread t)"
    using unread_next[of t H] \<open>x = Tokenizer_next H t\<close> by simp
qed

definition Tokenizer_string :: "host \<Rightarrow> Tokenizer \<Rightarrow> TokenType \<times> string \<times> Tokenizer" where
  "Tokenizer_string H t =
     (let offs = t_offset t in
      case string_loop H t of
        Inl t1 \<Rightarrow> (ERROR, ''unterminated string'', t1)
      | Inr t1 \<Rightarrow> (let t2 = Tokenizer_next H t1 in (STRING, slice t2 offs, t2)))"

text \<open>
  The default branch of the switch of \<open>Next\<close>, after its \<open>t.next()\<close>: \<open>ch\<close> is the
  character read, \<open>tok\<close> the value the result \<open>tok\<close> had before. A \<open>!\<close> that no \<open>=\<close>
  follows assigns nothing to \<open>tok\<close>.
\<close>

definition punctuation :: "host \<Rightarrow> TokenType \<Rightarrow> int \<Rightarrow> Tokenizer \<Rightarrow> TokenType \<times> string \<times> Tokenizer" where
  "punctuation H tok ch t =
     (let lit = string_of_rune H ch in
      if ch = 10 \<or> ch = 13 then (CR, lit, t)
      else if ch = 44 then (COMMA, lit, t)
      else if ch = 59 then (SEMICOLON, lit, t)
      else if ch = 60 then
        (if t_ch t = 61 then (LEQ, ''<='', Tokenizer_next H t) else (LT, lit, t))
      else if ch = 62 then
        (if t_ch t = 61 then (GEQ, ''>='', Tokenizer_next H t) else (GT, lit, t))
      else if ch = 33 then
        (if t_ch t = 61 then (NEQ, ''!='', Tokenizer_next H t) else (tok, lit, t))
      else if ch = 61 then (EQ, lit, t)
      else if ch = 40 then (LPAREN, lit, t)
      else if ch = 41 then (RPAREN, lit, t)
      else if ch = 94 then (XOR, lit, t)
      else if ch = 38 then (AND, lit, t)
      else if ch = 124 then (OR, lit, t)
      else if ch = 43 then (PLUS, lit, t)
      else if ch = 45 then (MINUS, lit, t)
      else if ch = 42 then (ASTR, lit, t)
      else if ch = 47 then (SLASH, lit, t)
      else if ch = 37 then (MOD, lit, t)
      else if ch = 35 then (HASH, lit, t)
      else (ERROR, ''unknown character '' @ QuoteRune H ch, t))"

text \<open>
  \<open>Tokenizer.Next\<close> from its label \<open>scan\<close> on. The results \<open>tok\<close> and \<open>lit\<close> are variables
  of the function: after \<open>goto scan\<close> they hold what the comment left in them, and the
  branch for the end of the input assigns \<open>tok\<close> only.
\<close>

partial_function (option) scan ::
  "host \<Rightarrow> TokenType \<Rightarrow> string \<Rightarrow> Tokenizer \<Rightarrow> ((Position \<times> TokenType \<times> string) \<times> Tokenizer) option" where
  "scan H tok lit t =
     (let t1 = Tokenizer_skipws H t;
          pos = \<lparr>Filename = t_name t1, Offset = t_offset t1, Line = t_lastLine t1,
                 Column = t_lastColumn t1\<rparr>;
          ch = t_ch t1
      in if isLetter H ch then
           (let (lit1, t2) = Tokenizer_ident H t1;
                tok1 = lookupIdent H lit1
            in if tok1 = REM then
                 (case Tokenizer_comment H t2 of
                    None \<Rightarrow> None
                  | Some (c, t3) \<Rightarrow>
                      if \<not> t_conf t3 then scan H tok1 (lit1 @ c) t3
                      else Some ((pos, tok1, lit1 @ c), t3))
               else Some ((pos, tok1, lit1), t2))
         else if unicode_IsDigit H ch then
           (let (tok1, lit1, t2) = Tokenizer_number H t1 in Some ((pos, tok1, lit1), t2))
         else if ch = 34 then
           (let (tok1, lit1, t2) = Tokenizer_string H t1 in Some ((pos, tok1, lit1), t2))
         else if ch = eof then Some ((pos, EOF, lit), t1)
         else
           (let (tok1, lit1, t2) = punctuation H tok ch (Tokenizer_next H t1)
            in Some ((pos, tok1, lit1), t2)))"

declare scan.simps [code]

definition Tokenizer_Next :: "host \<Rightarrow> Tokenizer \<Rightarrow> ((Position \<times> TokenType \<times> string) \<times> Tokenizer) option" where
  "Tokenizer_Next H t = scan H (ZeroToken H) [] t"

section \<open>The parser (package parse)\<close>

text \<open>The fields of \<open>Parser\<close>, prefixed with \<open>p_\<close>; \<open>p_lex\<close> is the tokenizer that the
  pointer \<open>lex\<close> refers to.\<close>

record Parser =
  p_lex :: Tokenizer
  p_look :: "Token list"
  p_tok :: Token
  p_label :: Label
  p_let :: Token

text \<open>The zero values \<open>scanner.Position{}\<close>, \<open>ast.Token{}\<close> and \<open>ast.Label{}\<close>.\<close>

definition zero_Position :: Position where
  "zero_Position = \<lparr>Filename = [], Offset = 0, Line = 0, Column = 0\<rparr>"

definition zero_Token :: "host \<Rightarrow> Token" where
  "zero_Token H = \<lparr>Token.Pos = zero_Position, Type = ZeroToken H, Text = []\<rparr>"

definition zero_Label :: Label where
  "zero_Label = \<lparr>Number.Pos = zero_Position, Value = 0\<rparr>"

text \<open>
  A call into the parser ends in one of three ways: it returns a value (\<open>Ok\<close>), it panics
  with an error (\<open>Failed\<close>), each with the parser as it is then, or it does not return
  (\<open>None\<close>): the tokenizer does not return, or the recursion exceeds the depth that the
  first argument of the recursive functions allows.
\<close>

datatype 'a result = Ok 'a Parser | Failed error Parser

definition after :: "'a result option \<Rightarrow> ('a \<Rightarrow> Parser \<Rightarrow> 'b result option) \<Rightarrow> 'b result option" where
  "after m f = (case m of None \<Rightarrow> None | Some (Failed err p) \<Rightarrow> Some (Failed err p) | Some (Ok x p) \<Rightarrow> f x p)"

text \<open>The loop of \<open>Parser.next\<close> that drops comments.\<close>

partial_function (option) next_loop :: "host \<Rightarrow> Parser \<Rightarrow> Parser option" where
  "next_loop H p =
     (case Tokenizer_Next H (p_lex p) of
        None \<Rightarrow> None
      | Some ((pos, ty, txt), t) \<Rightarrow>
          (let p1 = p\<lparr>p_tok := \<lparr>Token.Pos = pos, Type = ty, Text = txt\<rparr>, p_lex := t\<rparr> in
           if ty \<noteq> REM then Some p1 else next_loop H p1))"

declare next_loop.simps [code]

definition Parser_next :: "host \<Rightarrow> Parser \<Rightarrow> Parser option" where
  "Parser_next H p =
     (if length (p_look p) > 0 then Some (p\<lparr>p_tok := hd (p_look p), p_look := tl (p_look p)\<rparr>)
      else next_loop H p)"

definition NewParser :: "host \<Rightarrow> Tokenizer \<Rightarrow> Parser option" where
  "NewParser H t =
     Parser_next H \<lparr>p_lex = t, p_look = [], p_tok = zero_Token H, p_label = zero_Label,
                     p_let = zero_Token H\<rparr>"

definition Parser_Reset :: "host \<Rightarrow> Parser \<Rightarrow> Parser option" where
  "Parser_Reset H p = Parser_next H (p\<lparr>p_look := [], p_label := zero_Label, p_let := zero_Token H\<rparr>)"

partial_function (option) Parser_synch :: "host \<Rightarrow> Parser \<Rightarrow> Parser option" where
  "Parser_synch H p =
     (case Parser_next H p of
        None \<Rightarrow> None
      | Some p1 \<Rightarrow>
          if Type (p_tok p1) = CR \<or> Type (p_tok p1) = EOF then Parser_next H p1
          else Parser_synch H p1)"

declare Parser_synch.simps [code]

text \<open>\<open>Parser.errf\<close>: the error takes the position of the current token, then \<open>synch\<close>,
  then the panic.\<close>

definition Parser_errf :: "host \<Rightarrow> Parser \<Rightarrow> message \<Rightarrow> 'a result option" where
  "Parser_errf H p msg =
     (let err = AstError (Token.Pos (p_tok p)) msg in
      case Parser_synch H p of
        None \<Rightarrow> None
      | Some p1 \<Rightarrow> Some (Failed err p1))"

definition Parser_accept :: "host \<Rightarrow> Parser \<Rightarrow> TokenType \<Rightarrow> Token result option" where
  "Parser_accept H p ty =
     (if Type (p_tok p) \<noteq> ty then Parser_errf H p (ExpectedButGot ty (Type (p_tok p)))
      else (let xtok = p_tok p in
            case Parser_next H p of
              None \<Rightarrow> None
            | Some p1 \<Rightarrow> Some (Ok xtok p1)))"

definition Parser_acceptNumber :: "host \<Rightarrow> Parser \<Rightarrow> Number result option" where
  "Parser_acceptNumber H p =
     after (Parser_accept H p NUMBER) (\<lambda>t p.
       case strconv_ParseInt H (Text t) of
         None \<Rightarrow> Parser_errf H p (InvalidNumber (Text (p_tok p)))
       | Some n \<Rightarrow> Some (Ok \<lparr>Number.Pos = Token.Pos t, Value = n\<rparr> p))"

definition Parser_acceptVariable :: "host \<Rightarrow> Parser \<Rightarrow> Variable result option" where
  "Parser_acceptVariable H p =
     after (Parser_accept H p VARIABLE) (\<lambda>t p.
       Some (Ok \<lparr>Variable.Pos = Token.Pos t, Name = Text t\<rparr> p))"

definition Parser_acceptCR :: "host \<Rightarrow> Parser \<Rightarrow> unit result option" where
  "Parser_acceptCR H p =
     (if Type (p_tok p) = CR then after (Parser_accept H p CR) (\<lambda>_ p. Some (Ok () p))
      else if Type (p_tok p) \<noteq> EOF then Parser_errf H p (ExpectedNewline (Type (p_tok p)))
      else Some (Ok () p))"

partial_function (option) Parser_skipcr :: "host \<Rightarrow> Parser \<Rightarrow> Parser option" where
  "Parser_skipcr H p =
     (if Type (p_tok p) = CR
      then (case Parser_next H p of None \<Rightarrow> None | Some p1 \<Rightarrow> Parser_skipcr H p1)
      else Some p)"

declare Parser_skipcr.simps [code]

text \<open>
  The expressions. The first argument bounds the depth of the calls; each loop is a
  function of its own that takes the expression built so far.
\<close>

fun Parser_factor :: "nat \<Rightarrow> host \<Rightarrow> Parser \<Rightarrow> Expr result option"
  and Parser_term :: "nat \<Rightarrow> host \<Rightarrow> Parser \<Rightarrow> Expr result option"
  and term_loop :: "nat \<Rightarrow> host \<Rightarrow> Expr \<Rightarrow> Parser \<Rightarrow> Expr result option"
  and Parser_expr :: "nat \<Rightarrow> host \<Rightarrow> Parser \<Rightarrow> Expr result option"
  and expr_loop :: "nat \<Rightarrow> host \<Rightarrow> Expr \<Rightarrow> Parser \<Rightarrow> Expr result option"
where
  "Parser_factor 0 H p = None"
| "Parser_factor (Suc n) H p =
     (if Type (p_tok p) = NUMBER then
        after (Parser_acceptNumber H p) (\<lambda>r p. Some (Ok (Number r) p))
      else if Type (p_tok p) = LPAREN then
        (let l = p_tok p in
         after (Parser_expr n H p) (\<lambda>x p.
         after (Parser_accept H p RPAREN) (\<lambda>r p.
         Some (Ok (ParenExpr l x r) p))))
      else
        after (Parser_acceptVariable H p) (\<lambda>r p. Some (Ok (Variable r) p)))"
| "Parser_term 0 H p = None"
| "Parser_term (Suc n) H p = after (Parser_factor n H p) (\<lambda>f1 p. term_loop n H f1 p)"
| "term_loop 0 H f1 p = None"
| "term_loop (Suc n) H f1 p =
     (let op = p_tok p in
      if Type op = ASTR \<or> Type op = SLASH \<or> Type op = MOD then
        (case Parser_next H p of
           None \<Rightarrow> None
         | Some p \<Rightarrow>
             after (Parser_factor n H p) (\<lambda>f2 p.
             term_loop n H (BinaryExpr op f1 f2) p))
      else Some (Ok f1 p))"
| "Parser_expr 0 H p = None"
| "Parser_expr (Suc n) H p = after (Parser_term n H p) (\<lambda>t1 p. expr_loop n H t1 p)"
| "expr_loop 0 H t1 p = None"
| "expr_loop (Suc n) H t1 p =
     (let op = p_tok p in
      if Type op = PLUS \<or> Type op = MINUS \<or> Type op = AND \<or> Type op = OR then
        (case Parser_next H p of
           None \<Rightarrow> None
         | Some p \<Rightarrow>
             after (Parser_term n H p) (\<lambda>t2 p.
             expr_loop n H (BinaryExpr op t1 t2) p))
      else Some (Ok t1 p))"

fun relation_loop :: "nat \<Rightarrow> host \<Rightarrow> Expr \<Rightarrow> Parser \<Rightarrow> Expr result option" where
  "relation_loop 0 H r1 p = None"
| "relation_loop (Suc n) H r1 p =
     (let op = p_tok p in
      if Type op = LT \<or> Type op = GT \<or> Type op = LEQ \<or> Type op = GEQ \<or> Type op = NEQ \<or> Type op = EQ then
        (case Parser_next H p of
           None \<Rightarrow> None
         | Some p \<Rightarrow>
             after (Parser_expr n H p) (\<lambda>r2 p.
             relation_loop n H (BinaryExpr op r1 r2) p))
      else Some (Ok r1 p))"

definition Parser_relation :: "nat \<Rightarrow> host \<Rightarrow> Parser \<Rightarrow> Expr result option" where
  "Parser_relation n H p = after (Parser_expr n H p) (\<lambda>r1 p. relation_loop n H r1 p)"

text \<open>The loop of \<open>Parser.print\<close>, with the arguments appended so far.\<close>

fun print_loop :: "nat \<Rightarrow> host \<Rightarrow> Expr list \<Rightarrow> Parser \<Rightarrow> Expr list result option" where
  "print_loop 0 H args p = None"
| "print_loop (Suc n) H args p =
     (let ty = Type (p_tok p) in
      if ty = STRING then
        (case strconv_Unquote H (Text (p_tok p)) of
           None \<Rightarrow> Parser_errf H p (InvalidString (Text (p_tok p)))
         | Some lit \<Rightarrow>
             (let args = args @ [String (Token.Pos (p_tok p)) lit] in
              case Parser_next H p of
                None \<Rightarrow> None
              | Some p \<Rightarrow> print_loop n H args p))
      else if ty = COMMA \<or> ty = SEMICOLON then
        (let args = args @ [Punct (Token.Pos (p_tok p)) (Type (p_tok p))] in
         case Parser_next H p of
           None \<Rightarrow> None
         | Some p \<Rightarrow> print_loop n H args p)
      else if ty = VARIABLE \<or> ty = NUMBER then
        after (Parser_expr n H p) (\<lambda>x p. print_loop n H (args @ [x]) p)
      else if ty = CR \<or> ty = EOF then Some (Ok args p)
      else Parser_errf H p (UnknownPrintType (Text (p_tok p))))"

definition Parser_print :: "nat \<Rightarrow> host \<Rightarrow> Parser \<Rightarrow> Stmt result option" where
  "Parser_print n H p =
     (let label = p_label p in
      after (Parser_accept H p PRINT) (\<lambda>print p.
      after (print_loop n H [] p) (\<lambda>args p.
      Some (Ok (PrintStmt label print args) p))))"

definition Parser_goto :: "host \<Rightarrow> Parser \<Rightarrow> Stmt result option" where
  "Parser_goto H p =
     (let label = p_label p in
      after (Parser_accept H p GOTO) (\<lambda>goto p.
      after (Parser_acceptNumber H p) (\<lambda>location p.
      Some (Ok (GotoStmt label goto location) p))))"

definition Parser_gosub :: "host \<Rightarrow> Parser \<Rightarrow> Stmt result option" where
  "Parser_gosub H p =
     (let label = p_label p in
      after (Parser_accept H p GOSUB) (\<lambda>gosub p.
      after (Parser_acceptNumber H p) (\<lambda>location p.
      Some (Ok (GosubStmt label gosub location) p))))"

definition Parser_for :: "nat \<Rightarrow> host \<Rightarrow> Parser \<Rightarrow> Stmt result option" where
  "Parser_for n H p =
     (let label = p_label p in
      after (Parser_accept H p FOR) (\<lambda>for p.
      after (Parser_acceptVariable H p) (\<lambda>var p.
      after (Parser_accept H p EQ) (\<lambda>_ p.
      after (Parser_expr n H p) (\<lambda>start p.
      after (Parser_accept H p TO) (\<lambda>to p.
      after (Parser_expr n H p) (\<lambda>end' p.
      Some (Ok (ForStmt label for var start to end') p))))))))"

definition Parser_peek :: "nat \<Rightarrow> host \<Rightarrow> Parser \<Rightarrow> Stmt result option" where
  "Parser_peek n H p =
     (let label = p_label p in
      after (Parser_accept H p PEEK) (\<lambda>peek p.
      after (Parser_expr n H p) (\<lambda>addr p.
      after (Parser_accept H p COMMA) (\<lambda>_ p.
      after (Parser_acceptVariable H p) (\<lambda>var p.
      Some (Ok (PeekStmt label peek addr var) p))))))"

definition Parser_poke :: "nat \<Rightarrow> host \<Rightarrow> Parser \<Rightarrow> Stmt result option" where
  "Parser_poke n H p =
     (let label = p_label p in
      after (Parser_accept H p POKE) (\<lambda>poke p.
      after (Parser_expr n H p) (\<lambda>addr p.
      after (Parser_accept H p COMMA) (\<lambda>_ p.
      after (Parser_expr n H p) (\<lambda>val p.
      Some (Ok (PokeStmt label poke addr val) p))))))"

text \<open>\<open>Parser.next_\<close>, the parser of the NEXT statement (\<open>Parser_next\<close> is \<open>Parser.next\<close>).\<close>

definition Parser_next_stmt :: "host \<Rightarrow> Parser \<Rightarrow> Stmt result option" where
  "Parser_next_stmt H p =
     (let label = p_label p in
      after (Parser_accept H p NEXT) (\<lambda>next p.
      after (Parser_acceptVariable H p) (\<lambda>var p.
      Some (Ok (NextStmt label next var) p))))"

definition Parser_end :: "host \<Rightarrow> Parser \<Rightarrow> Stmt result option" where
  "Parser_end H p =
     (let label = p_label p in
      after (Parser_accept H p END) (\<lambda>end' p.
      Some (Ok (EndStmt label end') p)))"

definition Parser_let :: "nat \<Rightarrow> host \<Rightarrow> Parser \<Rightarrow> Stmt result option" where
  "Parser_let n H p =
     (let label = p_label p; let' = p_let p in
      after (Parser_acceptVariable H p) (\<lambda>var p.
      after (Parser_accept H p EQ) (\<lambda>_ p.
      after (Parser_expr n H p) (\<lambda>val p.
      Some (Ok (LetStmt label let' var val) p)))))"

definition Parser_return :: "host \<Rightarrow> Parser \<Rightarrow> Stmt result option" where
  "Parser_return H p =
     (let label = p_label p in
      after (Parser_accept H p RETURN) (\<lambda>return p.
      Some (Ok (ReturnStmt label return) p)))"

text \<open>\<open>Parser.stmt\<close> and \<open>Parser.if_\<close>. The statement's own parser returns the statement;
  \<open>stmt\<close> then accepts the line break, except after an IF.\<close>

definition with_CR :: "host \<Rightarrow> Stmt result option \<Rightarrow> Stmt result option" where
  "with_CR H m = after m (\<lambda>s p. after (Parser_acceptCR H p) (\<lambda>_ p. Some (Ok s p)))"

fun Parser_stmt :: "nat \<Rightarrow> host \<Rightarrow> Parser \<Rightarrow> Stmt result option"
  and Parser_if :: "nat \<Rightarrow> host \<Rightarrow> Parser \<Rightarrow> Stmt result option"
where
  "Parser_stmt 0 H p = None"
| "Parser_stmt (Suc n) H p =
     (case Parser_skipcr H p of
        None \<Rightarrow> None
      | Some p \<Rightarrow>
          after (Parser_acceptNumber H p) (\<lambda>num p.
            (let p = p\<lparr>p_label := num, p_let := zero_Token H\<rparr>;
                 ty = Type (p_tok p)
             in if ty = PRINT then with_CR H (Parser_print n H p)
                else if ty = IF then Parser_if n H p
                else if ty = GOTO then with_CR H (Parser_goto H p)
                else if ty = GOSUB then with_CR H (Parser_gosub H p)
                else if ty = RETURN then with_CR H (Parser_return H p)
                else if ty = FOR then with_CR H (Parser_for n H p)
                else if ty = PEEK then with_CR H (Parser_peek n H p)
                else if ty = POKE then with_CR H (Parser_poke n H p)
                else if ty = NEXT then with_CR H (Parser_next_stmt H p)
                else if ty = END then with_CR H (Parser_end H p)
                else if ty = LET then
                  after (Parser_accept H p LET) (\<lambda>let' p.
                    with_CR H (Parser_let n H (p\<lparr>p_let := let'\<rparr>)))
                else if ty = VARIABLE then with_CR H (Parser_let n H p)
                else Parser_errf H p (UnsupportedStatement (Text (p_tok p))))))"
| "Parser_if 0 H p = None"
| "Parser_if (Suc n) H p =
     (let label = p_label p in
      after (Parser_accept H p IF) (\<lambda>if' p.
      after (Parser_relation n H p) (\<lambda>cond p.
      after (Parser_accept H p THEN) (\<lambda>then' p.
      after (Parser_acceptCR H p) (\<lambda>_ p.
      after (Parser_stmt n H p) (\<lambda>body p.
        (let tok = p_tok p in
         after (Parser_acceptNumber H p) (\<lambda>num p.
           if Type (p_tok p) = ELSE then
             after (Parser_accept H p ELSE) (\<lambda>else' p.
             after (Parser_acceptCR H p) (\<lambda>_ p.
             after (Parser_stmt n H p) (\<lambda>ebody p.
             Some (Ok (IfStmt label if' cond then' body (Some (ElseStmt num else' ebody))) p))))
           else
             Some (Ok (IfStmt label if' cond then' body None)
                      (p\<lparr>p_look := [p_tok p], p_tok := tok\<rparr>))))))))))"

text \<open>\<open>Parser.Line\<close>: \<open>Failed\<close> is the error it returns, \<open>io.EOF\<close> at the end of the input.\<close>

definition Parser_Line :: "nat \<Rightarrow> host \<Rightarrow> Parser \<Rightarrow> Stmt result option" where
  "Parser_Line n H p =
     (if Type (p_tok p) = EOF then Some (Failed io_EOF p)
      else if Type (p_tok p) = ERROR then Parser_errf H p (LexError (Text (p_tok p)))
      else Parser_stmt n H p)"

section \<open>The interpreter (package interp)\<close>

text \<open>
  The reference capability \<open>Stdio\<close>: what \<open>Write\<close> received so far, and the memory
  behind \<open>Peek\<close> and \<open>Poke\<close>.
\<close>

record Mach =
  Written :: string
  Values :: "int64 \<rightharpoonup> int64"

definition Mach_Write :: "Mach \<Rightarrow> string \<Rightarrow> Mach" where
  "Mach_Write m b = m\<lparr>Written := Written m @ b\<rparr>"

definition Mach_Peek :: "Mach \<Rightarrow> int64 \<Rightarrow> int64" where
  "Mach_Peek m addr = (case Values m addr of None \<Rightarrow> 0 | Some v \<Rightarrow> v)"

definition Mach_Poke :: "Mach \<Rightarrow> int64 \<Rightarrow> int64 \<Rightarrow> Mach" where
  "Mach_Poke m addr v = m\<lparr>Values := (Values m)(addr \<mapsto> v)\<rparr>"

definition NewStdio :: Mach where
  "NewStdio = \<lparr>Written = [], Values = Map.empty\<rparr>"

record ForStack =
  Block :: nat
  Var :: string
  To :: int64

text \<open>The stacks \<open>Subs\<close> and \<open>Fors\<close> grow at the end of the list, as \<open>append\<close> does.\<close>

record Interpreter =
  Mach :: Mach
  Halt :: bool
  PC :: nat
  Vars :: "string \<rightharpoonup> int64"
  Subs :: "nat list"
  Fors :: "ForStack list"
  Locs :: "int64 \<rightharpoonup> nat"
  Lines :: "Stmt list"

definition Reset :: "Interpreter \<Rightarrow> Interpreter" where
  "Reset p = p\<lparr>Halt := False, PC := 0, Vars := Map.empty, Subs := [], Fors := []\<rparr>"

definition NewInterpreter :: "Mach \<Rightarrow> Interpreter" where
  "NewInterpreter mach =
     Reset \<lparr>Mach = mach, Halt = False, PC = 0, Vars = Map.empty, Subs = [], Fors = [],
            Locs = Map.empty, Lines = []\<rparr>"

text \<open>Reading a Go map at a key it does not hold gives the zero value.\<close>

definition Vars_at :: "Interpreter \<Rightarrow> string \<Rightarrow> int64" where
  "Vars_at p k = (case Vars p k of None \<Rightarrow> 0 | Some v \<Rightarrow> v)"

definition truth :: "bool \<Rightarrow> int64" where
  "truth x = (if x then 1 else 0)"

text \<open>
  Go's \<open>/\<close> and \<open>%\<close> on \<open>int64\<close>: a zero divisor panics; otherwise the quotient is
  truncated towards zero and wraps for the one overflowing case.
\<close>

definition int64_quo :: "int64 \<Rightarrow> int64 \<Rightarrow> error + int64" where
  "int64_quo l r = (if r = 0 then Inl DivideByZero else Inr (word_of_int (sint l sdiv sint r)))"

definition int64_rem :: "int64 \<Rightarrow> int64 \<Rightarrow> error + int64" where
  "int64_rem l r = (if r = 0 then Inl DivideByZero else Inr (word_of_int (sint l smod sint r)))"

text \<open>The inner switch of \<open>Interpreter.expr\<close> on \<open>e.Op.Type\<close>.\<close>

definition binary :: "Token \<Rightarrow> int64 \<Rightarrow> int64 \<Rightarrow> error + int64" where
  "binary op l r =
     (case Type op of
        PLUS \<Rightarrow> Inr (l + r)
      | MINUS \<Rightarrow> Inr (l - r)
      | ASTR \<Rightarrow> Inr (l * r)
      | SLASH \<Rightarrow> int64_quo l r
      | MOD \<Rightarrow> int64_rem l r
      | AND \<Rightarrow> Inr (and l r)
      | OR \<Rightarrow> Inr (or l r)
      | XOR \<Rightarrow> Inr (xor l r)
      | LT \<Rightarrow> Inr (truth (word_sless l r))
      | GT \<Rightarrow> Inr (truth (word_sless r l))
      | LEQ \<Rightarrow> Inr (truth (word_sle l r))
      | GEQ \<Rightarrow> Inr (truth (word_sle r l))
      | NEQ \<Rightarrow> Inr (truth (l \<noteq> r))
      | EQ \<Rightarrow> Inr (truth (l = r))
      | _ \<Rightarrow> Inl (Errorf (UnknownBinaryOperator (Token.Pos op) (Type op))))"

text \<open>\<open>Interpreter.expr\<close>. A panic is the \<open>Inl\<close> result. The type switch has no default:
  a string or a punctuation mark leaves \<open>n\<close> at zero.\<close>

fun Interpreter_expr :: "Interpreter \<Rightarrow> Expr \<Rightarrow> error + int64" where
  "Interpreter_expr p (BinaryExpr op x y) =
     (case Interpreter_expr p x of
        Inl err \<Rightarrow> Inl err
      | Inr l \<Rightarrow>
          (case Interpreter_expr p y of
             Inl err \<Rightarrow> Inl err
           | Inr r \<Rightarrow> binary op l r))"
| "Interpreter_expr p (ParenExpr _ x _) = Interpreter_expr p x"
| "Interpreter_expr p (Variable e) =
     (case Vars p (Name e) of
        None \<Rightarrow> Inl (Errorf (UnknownVariableName (Variable.Pos e) (Name e)))
      | Some v \<Rightarrow> Inr v)"
| "Interpreter_expr p (Number e) = Inr (Value e)"
| "Interpreter_expr p (String _ _) = Inr 0"
| "Interpreter_expr p (Punct _ _) = Inr 0"

text \<open>\<open>fmt.Fprint\<close> of an \<open>int64\<close>: its decimal digits, after a minus sign when negative.\<close>

definition digit :: "nat \<Rightarrow> char" where
  "digit d = ''0123456789'' ! d"

function decimal :: "nat \<Rightarrow> string" where
  "decimal n = (if n < 10 then [digit n] else decimal (n div 10) @ [digit (n mod 10)])"
  by pat_completeness auto
termination
  by (relation "measure id") auto

definition Fprint_int64 :: "int64 \<Rightarrow> string" where
  "Fprint_int64 v = (if sint v < 0 then CHR ''-'' # decimal (nat (- sint v)) else decimal (nat (sint v)))"

text \<open>
  The statements. A statement returns the interpreter as the panic or the normal return
  left it, with the recovered error if it panicked. The functions take the fields of the
  statement that the source reads.
\<close>

type_synonym outcome = "error option \<times> Interpreter"

definition Interpreter_for :: "Interpreter \<Rightarrow> Variable \<Rightarrow> Expr \<Rightarrow> Expr \<Rightarrow> outcome" where
  "Interpreter_for p var start end' =
     (case Interpreter_expr p start of
        Inl err \<Rightarrow> (Some err, p)
      | Inr v \<Rightarrow>
          (let p1 = p\<lparr>Vars := (Vars p)(Name var \<mapsto> v)\<rparr> in
           case Interpreter_expr p1 end' of
             Inl err \<Rightarrow> (Some err, p1)
           | Inr t \<Rightarrow>
               (None, p1\<lparr>Fors := Fors p1 @ [\<lparr>Block = PC p1, Var = Name var, To = t\<rparr>]\<rparr>)))"

definition Interpreter_next :: "Interpreter \<Rightarrow> Label \<Rightarrow> Variable \<Rightarrow> outcome" where
  "Interpreter_next p label var =
     (let n = length (Fors p) in
      if n > 0 then
        (let f = Fors p ! (n - 1);
             p1 = (if Var f = Name var
                   then p\<lparr>Vars := (Vars p)(Name var \<mapsto> Vars_at p (Name var) + 1)\<rparr>
                   else p)
         in if word_sle (Vars_at p1 (Name var)) (To f)
            then (None, p1\<lparr>PC := Block f\<rparr>)
            else (None, p1\<lparr>Fors := take (n - 1) (Fors p1)\<rparr>))
      else (Some (Errorf (NonMatchingNext label)), p))"

definition Interpreter_goto :: "Interpreter \<Rightarrow> Label \<Rightarrow> Number \<Rightarrow> outcome" where
  "Interpreter_goto p label location =
     (case Locs p (Value location) of
        None \<Rightarrow> (Some (Errorf (GotoMissing label (Value location))), p)
      | Some loc \<Rightarrow> (None, p\<lparr>PC := loc\<rparr>))"

definition Interpreter_gosub :: "Interpreter \<Rightarrow> Label \<Rightarrow> Number \<Rightarrow> outcome" where
  "Interpreter_gosub p label location =
     (let p1 = p\<lparr>Subs := Subs p @ [PC p]\<rparr> in
      case Locs p1 (Value location) of
        None \<Rightarrow> (Some (Errorf (GosubMissing label (Value location))), p1)
      | Some loc \<Rightarrow> (None, p1\<lparr>PC := loc\<rparr>))"

definition Interpreter_return :: "Interpreter \<Rightarrow> Label \<Rightarrow> outcome" where
  "Interpreter_return p label =
     (if length (Subs p) = 0 then (Some (Errorf (NonMatchingReturn label)), p)
      else (None, p\<lparr>PC := Subs p ! (length (Subs p) - 1),
                     Subs := take (length (Subs p) - 1) (Subs p)\<rparr>))"

definition Interpreter_assign :: "Interpreter \<Rightarrow> Variable \<Rightarrow> Expr \<Rightarrow> outcome" where
  "Interpreter_assign p var val =
     (case Interpreter_expr p val of
        Inl err \<Rightarrow> (Some err, p)
      | Inr v \<Rightarrow> (None, p\<lparr>Vars := (Vars p)(Name var \<mapsto> v)\<rparr>))"

definition Fprint :: "Interpreter \<Rightarrow> string \<Rightarrow> Interpreter" where
  "Fprint p b = p\<lparr>Mach := Mach_Write (Mach p) b\<rparr>"

text \<open>\<open>Interpreter.print\<close>: the loop over \<open>s.Args\<close>, one argument per equation.\<close>

fun Interpreter_print :: "Interpreter \<Rightarrow> Label \<Rightarrow> Expr list \<Rightarrow> outcome" where
  "Interpreter_print p label [] = (None, p)"
| "Interpreter_print p label (String _ v # args) = Interpreter_print (Fprint p v) label args"
| "Interpreter_print p label (Punct pos typ # args) =
     (case typ of
        COMMA \<Rightarrow> Interpreter_print (Fprint p '' '') label args
      | SEMICOLON \<Rightarrow> Interpreter_print p label args
      | _ \<Rightarrow> (Some (Errorf (UnknownPrintArgument label (Punct pos typ))), p))"
| "Interpreter_print p label (arg # args) =
     (case Interpreter_expr p arg of
        Inl err \<Rightarrow> (Some err, p)
      | Inr v \<Rightarrow> Interpreter_print (Fprint p (Fprint_int64 v)) label args)"

text \<open>\<open>Interpreter.stmt\<close>, with \<open>Interpreter.if_\<close> as its equation for \<open>IfStmt\<close>. (A name cannot end in an
  underscore here: \<open>for_\<close>, \<open>goto_\<close> and \<open>return_\<close> lose theirs.)\<close>

fun Interpreter_stmt :: "Interpreter \<Rightarrow> Stmt \<Rightarrow> outcome" where
  "Interpreter_stmt p (ForStmt _ _ var start _ end') = Interpreter_for p var start end'"
| "Interpreter_stmt p (NextStmt label _ var) = Interpreter_next p label var"
| "Interpreter_stmt p (IfStmt _ _ cond _ body else') =
     (case Interpreter_expr p cond of
        Inl err \<Rightarrow> (Some err, p)
      | Inr c \<Rightarrow>
          if c \<noteq> 0 then Interpreter_stmt p body
          else (case else' of
                  None \<Rightarrow> (None, p)
                | Some (ElseStmt _ _ ebody) \<Rightarrow> Interpreter_stmt p ebody))"
| "Interpreter_stmt p (GotoStmt label _ location) = Interpreter_goto p label location"
| "Interpreter_stmt p (GosubStmt label _ location) = Interpreter_gosub p label location"
| "Interpreter_stmt p (ReturnStmt label _) = Interpreter_return p label"
| "Interpreter_stmt p (LetStmt _ _ var val) = Interpreter_assign p var val"
| "Interpreter_stmt p (EndStmt _ _) = (None, p\<lparr>Halt := True\<rparr>)"
| "Interpreter_stmt p (PeekStmt _ _ addr var) =
     (case Interpreter_expr p addr of
        Inl err \<Rightarrow> (Some err, p)
      | Inr a \<Rightarrow> (None, p\<lparr>Vars := (Vars p)(Name var \<mapsto> Mach_Peek (Mach p) a)\<rparr>))"
| "Interpreter_stmt p (PokeStmt _ _ addr val) =
     (case Interpreter_expr p addr of
        Inl err \<Rightarrow> (Some err, p)
      | Inr a \<Rightarrow>
          (case Interpreter_expr p val of
             Inl err \<Rightarrow> (Some err, p)
           | Inr v \<Rightarrow> (None, p\<lparr>Mach := Mach_Poke (Mach p) a v\<rparr>)))"
| "Interpreter_stmt p (PrintStmt label _ args) = Interpreter_print p label args"

text \<open>\<open>Interpreter.Eval\<close> recovers the panic of \<open>stmt\<close> into the returned error.\<close>

definition Interpreter_Eval :: "Interpreter \<Rightarrow> Stmt \<Rightarrow> outcome" where
  "Interpreter_Eval p s = Interpreter_stmt p s"

definition Interpreter_Step :: "Interpreter \<Rightarrow> outcome" where
  "Interpreter_Step p =
     (let p1 = (if PC p \<ge> length (Lines p) then p\<lparr>Halt := True\<rparr> else p) in
      if Halt p1 then (None, p1)
      else (let s = Lines p1 ! PC p1;
                p2 = p1\<lparr>PC := PC p1 + 1\<rparr>
            in Interpreter_Eval p2 s))"

text \<open>The loop \<open>for i, s := range p.Lines { p.Locs[s.Line()] = i }\<close>, from index \<open>i\<close> on.\<close>

fun index_Lines :: "(int64 \<rightharpoonup> nat) \<Rightarrow> nat \<Rightarrow> Stmt list \<Rightarrow> (int64 \<rightharpoonup> nat)" where
  "index_Lines locs i [] = locs"
| "index_Lines locs i (s # ss) = index_Lines (locs(Stmt_Line s \<mapsto> i)) (Suc i) ss"

text \<open>\<open>addLine\<close>: \<open>append(p.Lines[:n], p.Lines[n+1:]...)\<close> drops the line at \<open>n\<close>. (\<open>Repl\<close>, which
  reads its lines from a stream and calls \<open>addLine\<close> for each statement, is not modelled.)\<close>

definition addLine :: "Interpreter \<Rightarrow> Stmt \<Rightarrow> Interpreter" where
  "addLine p s =
     (let p1 = (case Locs p (Stmt_Line s) of
                  Some n \<Rightarrow> p\<lparr>Lines := take n (Lines p) @ drop (n + 1) (Lines p)\<rparr>
                | None \<Rightarrow> p);
          p2 = p1\<lparr>Lines := Lines p1 @ [s]\<rparr>;
          p3 = p2\<lparr>Locs := index_Lines Map.empty 0 (Lines p2)\<rparr>
      in p3\<lparr>PC := length (Lines p3) - 1\<rparr>)"

text \<open>The loop \<open>for !interp.Halt { ... interp.Step() ... }\<close> of \<open>Run\<close>; it need not end.\<close>

partial_function (option) run_loop :: "Interpreter \<Rightarrow> outcome option" where
  "run_loop p =
     (if Halt p then Some (None, p)
      else (case Interpreter_Step p of
              (Some err, p1) \<Rightarrow> Some (Some err, p1)
            | (None, p1) \<Rightarrow> run_loop p1))"

declare run_loop.simps [code]

text \<open>The first loop of \<open>Run\<close>: lines are parsed until \<open>Line\<close> returns an error.\<close>

partial_function (option) parse_lines :: "nat \<Rightarrow> host \<Rightarrow> Parser \<Rightarrow> Stmt list \<Rightarrow> (error + Stmt list) option" where
  "parse_lines n H parser lines =
     (case Parser_Line n H parser of
        None \<Rightarrow> None
      | Some (Failed err parser1) \<Rightarrow> if err = io_EOF then Some (Inr lines) else Some (Inl err)
      | Some (Ok line parser1) \<Rightarrow> parse_lines n H parser1 (lines @ [line]))"

declare parse_lines.simps [code]

text \<open>
  \<open>Run\<close>. The model returns the interpreter next to the error, so that what was written
  and where the run stopped can be read; \<open>None\<close> when \<open>Run\<close> does not return. The first
  argument is the depth allowed to the parser's recursion in each call of \<open>Line\<close>.
\<close>

definition Run :: "nat \<Rightarrow> host \<Rightarrow> Mach \<Rightarrow> string \<Rightarrow> string \<Rightarrow> outcome option" where
  "Run n H mach name src =
     (let lexer = Tokenizer_Init H False name src in
      case NewParser H lexer of
        None \<Rightarrow> None
      | Some parser \<Rightarrow>
          (let interp = NewInterpreter mach in
           case parse_lines n H parser (Lines interp) of
             None \<Rightarrow> None
           | Some (Inl err) \<Rightarrow> Some (Some err, interp)
           | Some (Inr lines) \<Rightarrow>
               (let interp = interp\<lparr>Lines := lines\<rparr>;
                    interp = interp\<lparr>Locs := index_Lines (Locs interp) 0 (Lines interp)\<rparr>
                in run_loop (Reset interp))))"

section \<open>The text of the interpreter's errors\<close>

text \<open>
  \<open>scanner.Position.String\<close> (of the library) and \<open>Label.String\<close>, and with them the text
  of the interpreter's messages whose arguments are positions, Labels, numbers and names;
  \<open>message_Label\<close> is the Label among the arguments of a message.
\<close>

definition Position_String :: "Position \<Rightarrow> string" where
  "Position_String pos =
     (let s = (if Filename pos = [] then ''<input>'' else Filename pos) in
      if Line pos > 0 then s @ '':'' @ decimal (Line pos) @ '':'' @ decimal (Column pos) else s)"

definition Label_String :: "Label \<Rightarrow> string" where
  "Label_String l = Position_String (Number.Pos l) @ '': <'' @ Fprint_int64 (Value l) @ ''>''"

fun message_Label :: "message \<Rightarrow> Label option" where
  "message_Label (NonMatchingNext l) = Some l"
| "message_Label (GotoMissing l _) = Some l"
| "message_Label (GosubMissing l _) = Some l"
| "message_Label (NonMatchingReturn l) = Some l"
| "message_Label (UnknownPrintArgument l _) = Some l"
| "message_Label _ = None"

fun message_text :: "message \<Rightarrow> string option" where
  "message_text (NonMatchingNext l) = Some (Label_String l @ '': non-matching next'')"
| "message_text (GotoMissing l v) =
     Some (Label_String l @ '': goto: location '' @ Fprint_int64 v @ '' does not exist'')"
| "message_text (GosubMissing l v) =
     Some (Label_String l @ '': gosub: location '' @ Fprint_int64 v @ '' does not exist'')"
| "message_text (NonMatchingReturn l) = Some (Label_String l @ '': non-matching return'')"
| "message_text (UnknownVariableName pos x) =
     Some (Position_String pos @ '': unknown variable name '' @ x)"
| "message_text _ = None"


section \<open>What the specification says, and the predicates of the theorems\<close>

text \<open>
  The specification's account of what PRINT writes for one argument: a string verbatim, one
  space for a comma, nothing for a semicolon, the decimal value of anything else.
\<close>

fun spec_PRINT_text :: "Interpreter \<Rightarrow> Expr \<Rightarrow> string" where
  "spec_PRINT_text p (String _ v) = v"
| "spec_PRINT_text p (Punct _ ty) = (if ty = COMMA then '' '' else [])"
| "spec_PRINT_text p e = (case Interpreter_expr p e of Inr v \<Rightarrow> Fprint_int64 v | Inl _ \<Rightarrow> [])"

text \<open>An argument that PRINT can write: a string, a comma or a semicolon, or an expression
  whose evaluation does not panic.\<close>

fun printable :: "Interpreter \<Rightarrow> Expr \<Rightarrow> bool" where
  "printable p (String _ _) = True"
| "printable p (Punct _ ty) = (ty = COMMA \<or> ty = SEMICOLON)"
| "printable p e = (case Interpreter_expr p e of Inr _ \<Rightarrow> True | Inl _ \<Rightarrow> False)"

text \<open>\<open>nests K s\<close>: the statement is of kind \<open>K\<close>, or it is an IF with a statement of kind
  \<open>K\<close> as (or nested in) its body or the body of its else.\<close>

fun is_ForStmt :: "Stmt \<Rightarrow> bool" where
  "is_ForStmt (ForStmt _ _ _ _ _ _) = True"
| "is_ForStmt _ = False"

fun is_GosubStmt :: "Stmt \<Rightarrow> bool" where
  "is_GosubStmt (GosubStmt _ _ _) = True"
| "is_GosubStmt _ = False"

fun is_PrintStmt :: "Stmt \<Rightarrow> bool" where
  "is_PrintStmt (PrintStmt _ _ _) = True"
| "is_PrintStmt _ = False"

fun nests :: "(Stmt \<Rightarrow> bool) \<Rightarrow> Stmt \<Rightarrow> bool" where
  "nests K (IfStmt _ _ _ _ body else') =
     (nests K body \<or> (case else' of None \<Rightarrow> False | Some (ElseStmt _ _ ebody) \<Rightarrow> nests K ebody))"
| "nests K s = K s"

section \<open>Concrete inputs\<close>

text \<open>A host for ASCII sources: the parameters are never consulted on them.\<close>

definition ascii_host :: host where
  "ascii_host =
     \<lparr>ZeroToken = OTHER, DecodeRune = (\<lambda>_. (65533, 1)), IsLetter = (\<lambda>_. False),
      IsDigit = (\<lambda>_. False), ToLower = (\<lambda>s. s), RuneString = (\<lambda>_. []), QuoteRune = (\<lambda>_. []),
      ParseInt = (\<lambda>_. None), Unquote = (\<lambda>_. None)\<rparr>"

definition loop_text :: string where
  "loop_text = ''10 FOR I=1 TO 3'' @ [CHR 0x0A] @ ''20 PRINT I'' @ [CHR 0x0A] @ ''30 NEXT I''
     @ [CHR 0x0A] @ ''40 END''"



text \<open>The lines that \<open>Run\<close> parses from a source text, and the interpreter as \<open>Run\<close> has it
  before its first step.\<close>

definition parsed :: "string \<Rightarrow> Stmt list" where
  "parsed src =
     (case NewParser ascii_host (Tokenizer_Init ascii_host False ''t.bas'' src) of
        None \<Rightarrow> []
      | Some parser \<Rightarrow>
          (case parse_lines 5 ascii_host parser [] of Some (Inr ls) \<Rightarrow> ls | _ \<Rightarrow> []))"

definition loaded :: "Stmt list \<Rightarrow> Interpreter" where
  "loaded ls = Reset ((NewInterpreter NewStdio)\<lparr>Lines := ls, Locs := index_Lines Map.empty 0 ls\<rparr>)"

fun steps :: "nat \<Rightarrow> Interpreter \<Rightarrow> Interpreter" where
  "steps 0 p = p"
| "steps (Suc k) p = steps k (snd (Interpreter_Step p))"

definition at_line :: "nat \<Rightarrow> nat \<Rightarrow> Position" where
  "at_line l n = \<lparr>Filename = ''t.bas'', Offset = n, Line = l, Column = 1\<rparr>"

definition loop_loaded :: Interpreter where
  "loop_loaded = loaded (parsed loop_text)"

definition at_offset :: "nat \<Rightarrow> Position" where
  "at_offset n = at_line 1 n"


definition token :: "nat \<Rightarrow> TokenType \<Rightarrow> string \<Rightarrow> Token" where
  "token n ty txt = \<lparr>Token.Pos = at_offset n, Type = ty, Text = txt\<rparr>"

definition number :: "nat \<Rightarrow> int64 \<Rightarrow> Number" where
  "number n v = \<lparr>Number.Pos = at_offset n, Value = v\<rparr>"

definition variable :: "nat \<Rightarrow> string \<Rightarrow> Variable" where
  "variable n x = \<lparr>Variable.Pos = at_offset n, Name = x\<rparr>"

definition fresh :: Interpreter where
  "fresh = NewInterpreter NewStdio"

definition print_A :: Stmt where
  "print_A = PrintStmt (number 0 10) (token 3 PRINT ''PRINT'') [String (at_offset 9) ''A'']"

definition print_B :: Stmt where
  "print_B = PrintStmt (number 0 10) (token 3 PRINT ''PRINT'') [String (at_offset 9) ''B'']"

definition end_20 :: Stmt where
  "end_20 = EndStmt (number 0 20) (token 3 END ''END'')"

text \<open>The stored program after entering \<open>10 PRINT "A"\<close> and \<open>20 END\<close>.\<close>

definition two_lines :: Interpreter where
  "two_lines = addLine (addLine fresh print_A) end_20"

definition let_A_B :: Stmt where
  "let_A_B = LetStmt (number 0 10) (token 3 LET ''LET'') (variable 7 ''A'') (Variable (variable 9 ''B''))"

definition print_args :: "Expr list" where
  "print_args =
     [String (at_offset 9) ''X='', Variable (variable 14 ''A''), Punct (at_offset 15) COMMA,
      Number (number 16 7), Punct (at_offset 17) SEMICOLON,
      ParenExpr (token 18 LPAREN ''('') (Number (number 19 2)) (token 20 RPAREN '')'')]"

definition one_frame :: Interpreter where
  "one_frame = fresh\<lparr>Fors := [\<lparr>Block = 1, Var = ''I'', To = 3\<rparr>]\<rparr>"

lemmas concrete = at_line_def at_offset_def token_def number_def variable_def fresh_def
  NewInterpreter_def NewStdio_def Reset_def

section \<open>Expressions read the variables only\<close>

lemma Interpreter_expr_Mach [simp]:
  "Interpreter_expr (p\<lparr>Mach := m\<rparr>) e = Interpreter_expr p e"
  by (induction p e rule: Interpreter_expr.induct) (simp_all split: sum.splits)

lemma Interpreter_expr_PC [simp]:
  "Interpreter_expr (p\<lparr>PC := n\<rparr>) e = Interpreter_expr p e"
  by (induction p e rule: Interpreter_expr.induct) (simp_all split: sum.splits)

lemma Interpreter_expr_Fprint [simp]: "Interpreter_expr (Fprint p b) e = Interpreter_expr p e"
  by (simp add: Fprint_def)

section \<open>NEXT\<close>

text \<open>
  C10. When NEXT runs with a non-empty loop stack and its variable is not the variable of
  the top frame, it returns no error and changes no binding; it compares the current value
  of its own variable (zero when the variable is unbound) with the bound of the top frame,
  and either sets the program counter to the frame's index or pops the frame.
\<close>

theorem next_other_variable:
  assumes "Fors p \<noteq> []" and "Var (last (Fors p)) \<noteq> Name var"
  shows "Interpreter_Eval p (NextStmt label tk var) =
     (if word_sle (case Vars p (Name var) of None \<Rightarrow> 0 | Some v \<Rightarrow> v) (To (last (Fors p)))
      then (None, p\<lparr>PC := Block (last (Fors p))\<rparr>)
      else (None, p\<lparr>Fors := butlast (Fors p)\<rparr>))"
  using assms
  by (simp add: Interpreter_Eval_def Interpreter_next_def Vars_at_def Let_def last_conv_nth
      butlast_conv_take)

theorem next_other_variable_witness:
  "Fors one_frame \<noteq> [] \<and>
   Var (last (Fors one_frame)) \<noteq> Name (variable 8 ''J'') \<and>
   Vars one_frame ''J'' = None \<and>
   Interpreter_Eval one_frame (NextStmt (number 0 30) (token 3 NEXT ''NEXT'') (variable 8 ''J''))
     = (None, one_frame\<lparr>PC := 1\<rparr>)"
  using next_other_variable[of one_frame "variable 8 ''J''" "number 0 30" "token 3 NEXT ''NEXT''"]
  by (simp add: concrete one_frame_def word_sle_eq)

section \<open>Division\<close>

text \<open>
  C8. A division or a modulo whose right operand evaluates to zero is not checked by the
  evaluator: the result is the panic of the host's integer division, not one of the
  evaluator's own errors and not a value.
\<close>

theorem zero_divisor_panics:
  assumes "Interpreter_expr p x = Inr l" and "Interpreter_expr p y = Inr 0"
    and "Type op = SLASH \<or> Type op = MOD"
  shows "Interpreter_expr p (BinaryExpr op x y) = Inl DivideByZero"
  using assms by (auto simp: binary_def int64_quo_def int64_rem_def)

theorem zero_divisor_panics_witness:
  "Interpreter_expr fresh (Number (number 0 7)) = Inr 7 \<and>
   Interpreter_expr fresh (Number (number 2 0)) = Inr 0 \<and>
   (Type (token 1 SLASH ''/'') = SLASH \<or> Type (token 1 SLASH ''/'') = MOD) \<and>
   Interpreter_expr fresh (BinaryExpr (token 1 SLASH ''/'') (Number (number 0 7)) (Number (number 2 0)))
     = Inl DivideByZero"
  using zero_divisor_panics[of fresh "Number (number 0 7)" 7 "Number (number 2 0)" "token 1 SLASH ''/''"]
  by (simp add: concrete)

section \<open>PRINT\<close>

lemma printable_Fprint [simp]: "printable (Fprint p b) a = printable p a"
  by (cases a) (simp_all del: Interpreter_expr.simps)

lemma spec_PRINT_text_Fprint [simp]: "spec_PRINT_text (Fprint p b) a = spec_PRINT_text p a"
  by (cases a) (simp_all del: Interpreter_expr.simps)

lemma Fprint_Fprint [simp]: "Fprint (Fprint p a) b = Fprint p (a @ b)"
  by (simp add: Fprint_def Mach_Write_def)

lemma Fprint_Nil [simp]: "Fprint p [] = p"
  by (simp add: Fprint_def Mach_Write_def)

lemma Interpreter_print_printable:
  "\<forall>a\<in>set args. printable p a \<Longrightarrow>
   Interpreter_print p label args = (None, Fprint p (concat (map (spec_PRINT_text p) args)))"
proof (induction args arbitrary: p)
  case Nil
  then show ?case by simp
next
  case (Cons a args)
  then have rest: "\<And>b. Interpreter_print (Fprint p b) label args
      = (None, Fprint p (b @ concat (map (spec_PRINT_text p) args)))"
    by simp
  from Cons.prems have pa: "printable p a" by simp
  show ?case
    using pa rest rest[of "[]"]
    by (cases a) (auto simp del: Interpreter_expr.simps split: sum.splits)
qed

text \<open>The arguments are taken in order: PRINT stops at the first one that it cannot write,
  with the text of the arguments before it written.\<close>

lemma Interpreter_print_stops:
  assumes "\<forall>a\<in>set as. printable p a" and "\<not> printable p a"
  shows "\<exists>err. Interpreter_print p label (as @ a # rest) =
           (Some err, Fprint p (concat (map (spec_PRINT_text p) as)))"
  using assms
proof (induction as arbitrary: p)
  case Nil
  then show ?case
    by (cases a) (auto split: sum.splits TokenType.splits simp del: Interpreter_expr.simps)
next
  case (Cons b as)
  have rest: "\<exists>err. Interpreter_print (Fprint p c) label (as @ a # rest)
      = (Some err, Fprint p (c @ concat (map (spec_PRINT_text p) as)))" for c
    using Cons.IH[of "Fprint p c"] Cons.prems by simp
  from Cons.prems have pb: "printable p b" by simp
  show ?case
    using pb rest rest[of "[]"] rest[of "'' ''"]
    by (cases b) (auto simp del: Interpreter_expr.simps split: sum.splits)
qed

text \<open>
  C7. A PRINT statement whose arguments can all be written returns no error and appends to
  the output, in the order of the arguments, the text of each string, the decimal value of
  each expression, one space for each comma and nothing for each semicolon; nothing else is
  written, so there is no line terminator.
\<close>

theorem print_writes_arguments_in_order:
  assumes "\<forall>a\<in>set args. printable p a"
  shows "Interpreter_Eval p (PrintStmt label tk args) =
           (None, p\<lparr>Mach := (Mach p)\<lparr>Written := Written (Mach p) @ concat (map (spec_PRINT_text p) args)\<rparr>\<rparr>)"
  using Interpreter_print_printable[OF assms]
  by (simp add: Interpreter_Eval_def Fprint_def Mach_Write_def)

theorem print_writes_arguments_in_order_witness:
  "list_all (printable (fresh\<lparr>Vars := [''A'' \<mapsto> - 15]\<rparr>)) print_args \<and>
   Interpreter_Eval (fresh\<lparr>Vars := [''A'' \<mapsto> - 15]\<rparr>)
     (PrintStmt (number 0 10) (token 3 PRINT ''PRINT'') print_args)
     = (None, fresh\<lparr>Vars := [''A'' \<mapsto> - 15],
                     Mach := \<lparr>Written = ''X=-15 72'', Values = Map.empty\<rparr>\<rparr>)"
  using print_writes_arguments_in_order[of print_args
      "fresh\<lparr>Vars := [''A'' \<mapsto> - 15]\<rparr>" "number 0 10" "token 3 PRINT ''PRINT''"]
  by (simp add: concrete print_args_def Fprint_int64_def digit_def list_all_iff)

section \<open>Replacing a line\<close>

lemma index_Lines_other:
  "k \<notin> Stmt_Line ` set ss \<Longrightarrow> index_Lines locs i ss k = locs k"
  by (induction ss arbitrary: locs i) simp_all

lemma index_Lines_nth:
  "distinct (map Stmt_Line ss) \<Longrightarrow> j < length ss \<Longrightarrow>
   index_Lines locs i ss (Stmt_Line (ss ! j)) = Some (i + j)"
proof (induction ss arbitrary: locs i j)
  case Nil
  then show ?case by simp
next
  case (Cons s ss)
  show ?case
  proof (cases j)
    case 0
    with Cons.prems show ?thesis by (simp add: index_Lines_other)
  next
    case (Suc j')
    with Cons show ?thesis by simp
  qed
qed

lemma dom_index_Lines: "dom (index_Lines locs i ss) = dom locs \<union> Stmt_Line ` set ss"
  by (induction ss arbitrary: locs i) auto

lemma index_Lines_Some:
  assumes d: "distinct (map Stmt_Line ss)" and s: "index_Lines Map.empty 0 ss k = Some n"
  shows "n < length ss \<and> Stmt_Line (ss ! n) = k"
proof -
  from s have "k \<in> dom (index_Lines Map.empty 0 ss)" by blast
  then have "k \<in> Stmt_Line ` set ss" by (simp add: dom_index_Lines)
  then obtain j where j: "j < length ss" "Stmt_Line (ss ! j) = k"
    by (auto simp: in_set_conv_nth)
  with index_Lines_nth[OF d j(1), of Map.empty 0] s have "n = j" by simp
  with j show ?thesis by simp
qed

text \<open>Every program that \<open>addLine\<close> builds from the empty one has distinct Labels, indexed
  by the map.\<close>

lemma addLine_keeps_index:
  assumes d: "distinct (map Stmt_Line (Lines p))"
    and l: "Locs p = index_Lines Map.empty 0 (Lines p)"
  shows "distinct (map Stmt_Line (Lines (addLine p s))) \<and>
         Locs (addLine p s) = index_Lines Map.empty 0 (Lines (addLine p s))"
proof (cases "Locs p (Stmt_Line s)")
  case None
  then have "Stmt_Line s \<notin> dom (index_Lines Map.empty 0 (Lines p))"
    using l by auto
  then have "Stmt_Line s \<notin> Stmt_Line ` set (Lines p)"
    by (simp add: dom_index_Lines)
  with d None show ?thesis
    by (simp add: addLine_def Let_def)
next
  case (Some n)
  from index_Lines_Some[OF d] l Some have nlt: "n < length (Lines p)"
    and same: "Stmt_Line (Lines p ! n) = Stmt_Line s"
    by simp_all
  have "Lines p = take n (Lines p) @ Lines p ! n # drop (Suc n) (Lines p)"
    using nlt by (simp add: id_take_nth_drop)
  then have "distinct (map Stmt_Line (take n (Lines p) @ Lines p ! n # drop (Suc n) (Lines p)))"
    using d by simp
  then have "distinct (map Stmt_Line (take n (Lines p) @ drop (Suc n) (Lines p) @ [s]))"
    using same by (auto simp del: Stmt_Line_def)
  with Some show ?thesis
    by (simp add: addLine_def Let_def)
qed

text \<open>
  C6, as the code has it. The stored lines have distinct Labels and the map holds the index
  of each. Adding a statement whose Label is stored at index \<open>n\<close> removes the line at
  \<open>n\<close>, which is the one with that Label, and appends the new statement at the end
  of the stored lines; afterwards exactly one stored statement has that Label, the new one,
  and the rebuilt map sends the Label of every stored statement to its index and holds
  nothing else.
\<close>

theorem addLine_replaces_by_appending:
  assumes d: "distinct (map Stmt_Line (Lines p))"
    and l: "Locs p = index_Lines Map.empty 0 (Lines p)"
    and n: "Locs p (Stmt_Line s) = Some n"
  shows "n < length (Lines p) \<and> Stmt_Line (Lines p ! n) = Stmt_Line s \<and>
         Lines (addLine p s) = take n (Lines p) @ drop (Suc n) (Lines p) @ [s] \<and>
         filter (\<lambda>x. Stmt_Line x = Stmt_Line s) (Lines (addLine p s)) = [s] \<and>
         (\<forall>i<length (Lines (addLine p s)).
            Locs (addLine p s) (Stmt_Line (Lines (addLine p s) ! i)) = Some i) \<and>
         dom (Locs (addLine p s)) = Stmt_Line ` set (Lines (addLine p s))"
proof -
  let ?L = "Lines p"
  let ?L' = "take n ?L @ drop (Suc n) ?L @ [s]"
  from index_Lines_Some[OF d] l n have nlt: "n < length ?L" and same: "Stmt_Line (?L ! n) = Stmt_Line s"
    by simp_all
  have lines: "Lines (addLine p s) = ?L'"
    using n by (simp add: addLine_def Let_def)
  have locs: "Locs (addLine p s) = index_Lines Map.empty 0 ?L'"
    using n by (simp add: addLine_def Let_def)
  have split: "?L = take n ?L @ ?L ! n # drop (Suc n) ?L"
    using nlt by (simp add: id_take_nth_drop)
  have "distinct (map Stmt_Line (take n ?L @ ?L ! n # drop (Suc n) ?L))"
    using d split by simp
  then have d': "distinct (map Stmt_Line ?L')"
    using same by (auto simp del: Stmt_Line_def)
  then have "Stmt_Line s \<notin> Stmt_Line ` (set (take n ?L) \<union> set (drop (Suc n) ?L))"
    by auto
  then have "\<forall>x\<in>set (take n ?L) \<union> set (drop (Suc n) ?L). Stmt_Line x \<noteq> Stmt_Line s"
    by (metis imageI)
  then have only: "filter (\<lambda>x. Stmt_Line x = Stmt_Line s) ?L' = [s]"
    by (simp add: filter_empty_conv)
  have idx: "\<forall>i<length ?L'. index_Lines Map.empty 0 ?L' (Stmt_Line (?L' ! i)) = Some i"
    using index_Lines_nth[OF d', of _ Map.empty 0] by simp
  have dm: "dom (index_Lines Map.empty 0 ?L') = Stmt_Line ` set ?L'"
    by (simp add: dom_index_Lines)
  show ?thesis
    using nlt same only idx dm by (simp only: lines locs)
qed

theorem addLine_replaces_by_appending_witness:
  "distinct (map Stmt_Line (Lines two_lines)) \<and>
   Locs two_lines = index_Lines Map.empty 0 (Lines two_lines) \<and>
   Locs two_lines (Stmt_Line print_B) = Some 0 \<and>
   Stmt_Line (Lines two_lines ! 0) = Stmt_Line print_B \<and>
   Lines (addLine two_lines print_B) = [end_20, print_B] \<and>
   filter (\<lambda>x. Stmt_Line x = Stmt_Line print_B) (Lines (addLine two_lines print_B)) = [print_B] \<and>
   Locs (addLine two_lines print_B) (Stmt_Line end_20) = Some 0 \<and>
   Locs (addLine two_lines print_B) (Stmt_Line print_B) = Some 1 \<and>
   dom (Locs (addLine two_lines print_B)) = {Stmt_Line end_20, Stmt_Line print_B}"
proof -
  have h1: "distinct (map Stmt_Line (Lines two_lines))"
    by (simp add: concrete print_A_def print_B_def end_20_def two_lines_def addLine_def Stmt_Line_def)
  have h2: "Locs two_lines = index_Lines Map.empty 0 (Lines two_lines)"
    by (simp add: concrete print_A_def print_B_def end_20_def two_lines_def addLine_def Stmt_Line_def)
  have h3: "Locs two_lines (Stmt_Line print_B) = Some 0"
    by (simp add: concrete print_A_def print_B_def end_20_def two_lines_def addLine_def Stmt_Line_def)
  have l: "Lines two_lines = [print_A, end_20]"
    by (simp add: concrete print_A_def print_B_def end_20_def two_lines_def addLine_def Stmt_Line_def)
  note r = addLine_replaces_by_appending[OF h1 h2 h3]
  from r l have c: "Lines (addLine two_lines print_B) = [end_20, print_B]"
    by simp
  from r have i: "\<And>i. i < length (Lines (addLine two_lines print_B)) \<Longrightarrow>
      Locs (addLine two_lines print_B) (Stmt_Line (Lines (addLine two_lines print_B) ! i)) = Some i"
    by blast
  from i[of 0] i[of 1] c
  have i0: "Locs (addLine two_lines print_B) (Stmt_Line end_20) = Some 0"
    and i1: "Locs (addLine two_lines print_B) (Stmt_Line print_B) = Some 1"
    by simp_all
  from r c have dm: "dom (Locs (addLine two_lines print_B)) = {Stmt_Line end_20, Stmt_Line print_B}"
    by simp
  from r have s: "Stmt_Line (Lines two_lines ! 0) = Stmt_Line print_B"
    and f: "filter (\<lambda>x. Stmt_Line x = Stmt_Line print_B) (Lines (addLine two_lines print_B)) = [print_B]"
    by blast+
  show ?thesis
    using h1 h2 h3 s c f i0 i1 dm by (intro conjI)
qed

text \<open>
  C6, as stated, fails: with \<open>10 PRINT "A"\<close> at index 0 and \<open>20 END\<close> at index 1, entering
  \<open>10 PRINT "B"\<close> leaves \<open>20 END\<close> at index 0 and puts the new statement at index 1, not
  at the position of the line it replaces.
\<close>

theorem addLine_in_place_counterexample:
  "Lines two_lines = [print_A, end_20] \<and> Lines (addLine two_lines print_B) = [end_20, print_B]"
  by (simp add: concrete print_A_def print_B_def end_20_def two_lines_def addLine_def Stmt_Line_def)

section \<open>A statement that fails\<close>

lemma Interpreter_print_failed:
  "Interpreter_print p label args = (Some err, p') \<Longrightarrow> p' = p\<lparr>Mach := Mach p'\<rparr>"
proof (induction p label args rule: Interpreter_print.induct)
  case (3 p label ps ty args)
  then show ?case
    by (cases ty) (auto simp: Fprint_def)
qed (auto simp: Fprint_def simp del: Interpreter_expr.simps split: sum.splits)

lemma failed_statement:
  "Interpreter_stmt p s = (Some err, p') \<Longrightarrow>
     Fors p' = Fors p \<and>
     (\<not> nests is_GosubStmt s \<longrightarrow> Subs p' = Subs p) \<and>
     (\<not> nests is_ForStmt s \<longrightarrow> Vars p' = Vars p) \<and>
     (\<not> nests is_GosubStmt s \<and> \<not> nests is_ForStmt s \<and> \<not> nests is_PrintStmt s \<longrightarrow> p' = p)"
proof (induction p s rule: Interpreter_stmt.induct)
  case (1 p uu uv var start uw end')
  then show ?case
    by (auto simp: Interpreter_for_def Let_def split: sum.splits)
next
  case (2 p label ux var)
  then show ?case
    by (auto simp: Interpreter_next_def Let_def split: if_splits)
next
  case (3 p uy uz cond va body else')
  then show ?case
    by (auto split: sum.splits if_splits option.splits ElseStmt.splits)
next
  case (4 p label vb location)
  then show ?case by (auto simp: Interpreter_goto_def split: option.splits)
next
  case (5 p label vc location)
  then show ?case by (auto simp: Interpreter_gosub_def Let_def split: option.splits)
next
  case (6 p label vd)
  then show ?case by (auto simp: Interpreter_return_def split: if_splits)
next
  case (7 p ve vf var val)
  then show ?case by (auto simp: Interpreter_assign_def split: sum.splits)
next
  case (8 p vg vh)
  then show ?case by simp
next
  case (9 p vi vj addr var)
  then show ?case by (auto split: sum.splits)
next
  case (10 p vk vl addr val)
  then show ?case by (auto split: sum.splits)
next
  case (11 p label vm args)
  then show ?case
    using Interpreter_print_failed[of p label args err p']
    by (cases p, cases p') auto
qed

text \<open>
  C4, as the code has it. When evaluating a statement returns an error, the loop stack is as
  it was before the statement ran; the call stack is as it was unless the statement is a
  GOSUB (alone or under an IF); the variable bindings are as they were unless the statement
  is a FOR (alone or under an IF); and a statement that is none of GOSUB, FOR and PRINT, a LET
  in particular, leaves the whole interpreter as it was.
\<close>

theorem failed_statement_leaves_state:
  assumes "Interpreter_Eval p s = (Some err, p')"
  shows "Fors p' = Fors p \<and>
     (\<not> nests is_GosubStmt s \<longrightarrow> Subs p' = Subs p) \<and>
     (\<not> nests is_ForStmt s \<longrightarrow> Vars p' = Vars p) \<and>
     (\<not> nests is_GosubStmt s \<and> \<not> nests is_ForStmt s \<and> \<not> nests is_PrintStmt s \<longrightarrow> p' = p)"
  using assms failed_statement[of p s err p'] by (simp add: Interpreter_Eval_def)

theorem failed_statement_leaves_state_witness:
  "Interpreter_Eval fresh let_A_B = (Some (Errorf (UnknownVariableName (at_offset 9) ''B'')), fresh) \<and>
   \<not> nests is_GosubStmt let_A_B \<and> \<not> nests is_ForStmt let_A_B \<and> \<not> nests is_PrintStmt let_A_B"
proof -
  have e: "Interpreter_Eval fresh let_A_B
     = (Some (Errorf (UnknownVariableName (at_offset 9) ''B'')), fresh)"
    by (simp add: concrete let_A_B_def Interpreter_Eval_def Interpreter_assign_def)
  from failed_statement_leaves_state[OF e] e show ?thesis by (simp add: let_A_B_def)
qed

text \<open>
  C4, as stated, fails: a GOSUB to a Label that no line carries returns its error with the
  return address already pushed on the call stack.
\<close>

theorem gosub_undefined_label_counterexample:
  "Interpreter_Eval fresh (GosubStmt (number 0 10) (token 3 GOSUB ''GOSUB'') (number 9 99))
     = (Some (Errorf (GosubMissing (number 0 10) 99)), fresh\<lparr>Subs := [0]\<rparr>) \<and>
   Subs fresh = []"
  by (simp add: concrete Interpreter_Eval_def Interpreter_gosub_def)

section \<open>FOR and NEXT\<close>

text \<open>
  A FOR stores the program counter as it is when the statement is evaluated. The REPL
  evaluates a FOR that was just entered with no \<open>Step\<close>, right after \<open>addLine\<close> has set the
  counter to the index of the new statement; only then does the frame hold the index of the
  FOR itself.
\<close>

lemma Eval_for_stores_PC:
  assumes "Interpreter_expr p start = Inr v"
    and "Interpreter_expr (p\<lparr>Vars := (Vars p)(Name var \<mapsto> v)\<rparr>) end' = Inr t"
  shows "Interpreter_Eval p (ForStmt label tk var start tk' end') =
           (None, p\<lparr>Vars := (Vars p)(Name var \<mapsto> v),
                     Fors := Fors p @ [\<lparr>Block = PC p, Var = Name var, To = t\<rparr>]\<rparr>)"
  using assms by (simp add: Interpreter_Eval_def Interpreter_for_def Let_def)

lemma addLine_PC:
  "Lines (addLine p s) \<noteq> [] \<and> PC (addLine p s) = length (Lines (addLine p s)) - 1 \<and>
   Lines (addLine p s) ! PC (addLine p s) = s"
  by (simp add: addLine_def Let_def nth_append split: option.splits)

text \<open>\<open>loop_loaded\<close> is the interpreter that \<open>Run\<close> steps through for \<open>loop_text\<close>.\<close>

lemma loop_loaded_of_Run:
  "Run 5 ascii_host NewStdio ''t.bas'' loop_text = run_loop loop_loaded"
proof -
  define parser where
    "parser = the (NewParser ascii_host (Tokenizer_Init ascii_host False ''t.bas'' loop_text))"
  have new: "NewParser ascii_host (Tokenizer_Init ascii_host False ''t.bas'' loop_text) = Some parser"
    unfolding parser_def by code_simp
  have ls: "parse_lines 5 ascii_host parser [] = Some (Inr (parsed loop_text))"
    unfolding parser_def by code_simp
  show ?thesis
    by (simp add: Run_def new ls loop_loaded_def loaded_def NewInterpreter_def Reset_def)
qed

text \<open>
  C1, as the code has it. \<open>Step\<close> advances the program counter before it evaluates the
  statement, so a FOR at index \<open>i\<close> pushes a frame that stores \<open>i + 1\<close>, the index of the
  statement after the FOR. A NEXT on the same variable whose incremented value is within
  the bound, with that frame on top, sets the program counter to \<open>i + 1\<close>: the loop goes on
  after the FOR, with the variable incremented and the stack of frames unchanged.
\<close>

theorem Step_for_then_next:
  assumes "\<not> Halt p" and "PC p = i" and "i < length (Lines p)"
    and "Lines p ! i = ForStmt label tk var start tk' end'"
    and "Interpreter_expr p start = Inr v"
    and "Interpreter_expr (p\<lparr>PC := Suc i, Vars := (Vars p)(Name var \<mapsto> v)\<rparr>) end' = Inr t"
    and "Fors q \<noteq> []" and "last (Fors q) = \<lparr>Block = Suc i, Var = Name var, To = t\<rparr>"
    and "Name var2 = Name var"
    and "word_sle (Vars_at q (Name var) + 1) t"
  shows "Interpreter_Step p =
           (None, p\<lparr>PC := Suc i, Vars := (Vars p)(Name var \<mapsto> v),
                     Fors := Fors p @ [\<lparr>Block = Suc i, Var = Name var, To = t\<rparr>]\<rparr>) \<and>
         Interpreter_Eval q (NextStmt label2 tk2 var2) =
           (None, q\<lparr>Vars := (Vars q)(Name var \<mapsto> Vars_at q (Name var) + 1), PC := Suc i\<rparr>)"
proof -
  show ?thesis
    using assms
    by (simp add: Interpreter_Step_def Interpreter_Eval_def Interpreter_for_def
        Interpreter_next_def Let_def last_conv_nth Vars_at_def)
qed

theorem Step_for_then_next_witness:
  "Lines loop_loaded ! 0 =
     ForStmt (number 0 10) (token 3 FOR ''FOR'') (variable 7 ''I'') (Number (number 9 1))
       (token 11 TO ''TO'') (Number (number 14 3)) \<and>
   Lines loop_loaded ! 2 =
     NextStmt \<lparr>Number.Pos = at_line 2 27, Value = 30\<rparr>
       \<lparr>Token.Pos = at_line 3 30, Type = NEXT, Text = ''NEXT''\<rparr>
       \<lparr>Variable.Pos = at_line 3 35, Name = ''I''\<rparr> \<and>
   Interpreter_Step loop_loaded =
     (None, loop_loaded\<lparr>PC := 1, Vars := [''I'' \<mapsto> 1],
                          Fors := [\<lparr>Block = 1, Var = ''I'', To = 3\<rparr>]\<rparr>) \<and>
   Interpreter_Eval (steps 2 loop_loaded) (Lines loop_loaded ! 2) =
     (None, (steps 2 loop_loaded)\<lparr>Vars := (Vars (steps 2 loop_loaded))(''I'' \<mapsto> 2), PC := 1\<rparr>)"
proof -
  let ?p = loop_loaded
  let ?q = "steps 2 loop_loaded"
  let ?var = "variable 7 ''I''"
  let ?var2 = "\<lparr>Variable.Pos = at_line 3 35, Name = ''I''\<rparr>"
  have l0: "Lines ?p ! 0 =
     ForStmt (number 0 10) (token 3 FOR ''FOR'') ?var (Number (number 9 1))
       (token 11 TO ''TO'') (Number (number 14 3))"
    by code_simp
  have l2: "Lines ?p ! 2 =
     NextStmt \<lparr>Number.Pos = at_line 2 27, Value = 30\<rparr>
       \<lparr>Token.Pos = at_line 3 30, Type = NEXT, Text = ''NEXT''\<rparr> ?var2"
    by code_simp
  have h1: "\<not> Halt ?p" and h2: "PC ?p = 0" and h3: "0 < length (Lines ?p)"
    by code_simp+
  have h5: "Interpreter_expr ?p (Number (number 9 1)) = Inr 1"
    by (simp add: number_def)
  have h6: "Interpreter_expr (?p\<lparr>PC := Suc 0, Vars := (Vars ?p)(Name ?var \<mapsto> 1)\<rparr>)
              (Number (number 14 3)) = Inr 3"
    by (simp add: number_def)
  have h7: "Fors ?q \<noteq> []"
    by code_simp
  have h8: "last (Fors ?q) = \<lparr>Block = Suc 0, Var = Name ?var, To = 3\<rparr>"
    by code_simp
  have h9: "Name ?var2 = Name ?var"
    by (simp add: variable_def)
  have h10: "word_sle (Vars_at ?q (Name ?var) + 1) 3"
    by code_simp
  have v: "Vars ?p = Map.empty" and f: "Fors ?p = []"
    by (simp_all add: loop_loaded_def loaded_def Reset_def)
  have a: "Vars_at ?q ''I'' + 1 = 2" and n: "Name ?var = ''I''"
    by code_simp+
  from Step_for_then_next[OF h1 h2 h3 l0 h5 h6 h7 h8 h9 h10,
      of "\<lparr>Number.Pos = at_line 2 27, Value = 30\<rparr>"
         "\<lparr>Token.Pos = at_line 3 30, Type = NEXT, Text = ''NEXT''\<rparr>"]
  show ?thesis
    using l0 l2 by (simp add: v f a n)
qed

text \<open>
  C1, as stated, fails: in the program of \<open>loop_text\<close> the FOR is at index 0; the frame it
  pushes stores 1; and the step of \<open>30 NEXT I\<close> (the third step) leaves the program counter
  at 1, at \<open>20 PRINT I\<close>, with I at 2 and one frame on the stack.
\<close>

theorem next_jumps_past_for_counterexample:
  "PC loop_loaded = 0 \<and> is_ForStmt (Lines loop_loaded ! 0) \<and>
   Fors (steps 1 loop_loaded) = [\<lparr>Block = 1, Var = ''I'', To = 3\<rparr>] \<and>
   PC (steps 2 loop_loaded) = 2 \<and> Stmt_Line (Lines loop_loaded ! 2) = 30 \<and>
   PC (steps 3 loop_loaded) = 1 \<and>
   Vars (steps 3 loop_loaded) ''I'' = Some 2 \<and>
   Fors (steps 3 loop_loaded) = [\<lparr>Block = 1, Var = ''I'', To = 3\<rparr>]"
  by code_simp

section \<open>Running a program\<close>

text \<open>
  C2. Running the text \<open>10 FOR I=1 TO 3 / 20 PRINT I / 30 NEXT I / 40 END\<close> returns, with
  no error and with exactly \<open>123\<close> written (no separator, PRINT writes none); the
  interpreter has halted with its counter past the fourth and last line, \<open>40 END\<close>. This
  holds for every host and file name and for every recursion depth from 5 on.
\<close>

theorem run_for_loop_prints_1_2_3:
  "map_option (\<lambda>(err, p). (err, Mach p, Halt p, PC p, length (Lines p)))
      (Run (Suc (Suc (Suc (Suc (Suc n))))) H NewStdio name loop_text)
   = Some (None, \<lparr>Written = ''123'', Values = Map.empty\<rparr>, True, 4, 4)"
  by code_simp

text \<open>
  C5, as the code has it. Running \<open>10 PRINT A\<close> returns an error after the first step; the
  error carries the source position that the tokenizer recorded for the reference to A (the
  file name and line 1 of the file) and the name A.
\<close>

theorem run_print_unbound_variable:
  "map_option (\<lambda>(err, p). (err, Mach p, Halt p, PC p))
      (Run (Suc (Suc (Suc (Suc (Suc n))))) H NewStdio name ''10 PRINT A'')
   = Some (Some (Errorf (UnknownVariableName \<lparr>Filename = name, Offset = 9, Line = 1, Column = 1\<rparr> ''A'')),
           NewStdio, False, 1)"
  by code_simp

text \<open>
  C5, as stated, fails: the error of \<open>10 PRINT A\<close> carries no Label, and its text names
  line 1 of the file, not line 10.
\<close>

theorem print_unbound_variable_counterexample:
  "map_option fst (Run 5 ascii_host NewStdio ''t.bas'' ''10 PRINT A'')
     = Some (Some (Errorf (UnknownVariableName
          \<lparr>Filename = ''t.bas'', Offset = 9, Line = 1, Column = 1\<rparr> ''A''))) \<and>
   message_Label (UnknownVariableName \<lparr>Filename = ''t.bas'', Offset = 9, Line = 1, Column = 1\<rparr> ''A'')
     = None \<and>
   message_text (UnknownVariableName \<lparr>Filename = ''t.bas'', Offset = 9, Line = 1, Column = 1\<rparr> ''A'')
     = Some ''t.bas:1:1: unknown variable name A''"
  by code_simp

section \<open>A parenthesis in an expression\<close>

text \<open>
  \<open>factor\<close> calls \<open>expr\<close> at a left parenthesis without reading past it, so \<open>expr\<close>
  comes back to \<open>factor\<close> at the same token: no depth of recursion is enough.
\<close>

lemma paren_never_returns:
  "Type (p_tok p) = LPAREN \<Longrightarrow>
   Parser_factor n H p = None \<and> Parser_term n H p = None \<and> Parser_expr n H p = None"
proof (induction n)
  case 0
  then show ?case by simp
next
  case (Suc n)
  then show ?case by (simp add: after_def)
qed

lemma let_paren_never_returns:
  assumes "Parser_acceptVariable H p = Some (Ok var p1)"
    and "Parser_accept H p1 EQ = Some (Ok eq p2)"
    and "Type (p_tok p2) = LPAREN"
  shows "Parser_let n H p = None"
  using assms paren_never_returns[OF assms(3), of n H]
  by (simp add: Parser_let_def after_def)

lemma Line_let_paren_never_returns:
  assumes "Type (p_tok p) = NUMBER"
    and "Parser_acceptNumber H p = Some (Ok num p0)"
    and "Type (p_tok p0) = VARIABLE"
    and "Parser_acceptVariable H (p0\<lparr>p_label := num, p_let := zero_Token H\<rparr>) = Some (Ok var p1)"
    and "Parser_accept H p1 EQ = Some (Ok eq p2)"
    and "Type (p_tok p2) = LPAREN"
  shows "Parser_Line n H p = None"
proof (cases n)
  case 0
  with assms(1) show ?thesis by (simp add: Parser_Line_def)
next
  case (Suc m)
  have skip: "Parser_skipcr H p = Some p"
    using assms(1) by (subst Parser_skipcr.simps) simp
  show ?thesis
    using assms(1-3) skip let_paren_never_returns[OF assms(4-6), of m] Suc
    by (simp add: Parser_Line_def after_def with_CR_def)
qed

text \<open>
  C3 fails on the code: on the line \<open>10 A=(1)\<close> the parser is created, and \<open>Line\<close> does
  not return, whatever depth of recursion it is allowed.
\<close>

theorem Line_does_not_return_on_paren:
  "\<exists>p. NewParser H (Tokenizer_Init H False name ''10 A=(1)'') = Some p \<and> Parser_Line n H p = None"
proof -
  define p where "p = the (NewParser H (Tokenizer_Init H False name ''10 A=(1)''))"
  define r0 where "r0 = Parser_acceptNumber H p"
  define num where "num = (case r0 of Some (Ok x _) \<Rightarrow> x)"
  define p0 where "p0 = (case r0 of Some (Ok _ q) \<Rightarrow> q)"
  define r1 where "r1 = Parser_acceptVariable H (p0\<lparr>p_label := num, p_let := zero_Token H\<rparr>)"
  define var where "var = (case r1 of Some (Ok x _) \<Rightarrow> x)"
  define p1 where "p1 = (case r1 of Some (Ok _ q) \<Rightarrow> q)"
  define r2 where "r2 = Parser_accept H p1 EQ"
  define eq where "eq = (case r2 of Some (Ok x _) \<Rightarrow> x)"
  define p2 where "p2 = (case r2 of Some (Ok _ q) \<Rightarrow> q)"
  note defs = p2_def eq_def r2_def p1_def var_def r1_def p0_def num_def r0_def p_def
  have new: "NewParser H (Tokenizer_Init H False name ''10 A=(1)'') = Some p"
    unfolding defs by code_simp
  have h1: "Type (p_tok p) = NUMBER"
    unfolding defs by code_simp
  have h2: "Parser_acceptNumber H p = Some (Ok num p0)"
    unfolding defs by code_simp
  have h3: "Type (p_tok p0) = VARIABLE"
    unfolding defs by code_simp
  have h4: "Parser_acceptVariable H (p0\<lparr>p_label := num, p_let := zero_Token H\<rparr>) = Some (Ok var p1)"
    unfolding defs by code_simp
  have h5: "Parser_accept H p1 EQ = Some (Ok eq p2)"
    unfolding defs by code_simp
  have h6: "Type (p_tok p2) = LPAREN"
    unfolding defs by code_simp
  from Line_let_paren_never_returns[OF h1 h2 h3 h4 h5 h6] new show ?thesis by blast
qed

section \<open>An IF on the last lines of the input\<close>









end
